theory Spec2Isabelle
  imports Complex_Main
begin

section \<open>Python and numpy values\<close>

text \<open>
  The program computes with IEEE doubles. They are modelled as real numbers: rounding,
  overflow and underflow are left out, and a float literal is the decimal it is written as.
  What reals cannot hold is kept apart:
  \<^item> a Python exception is a \<open>fault\<close>, the left summand of a result;
  \<^item> a numpy result that is \<open>inf\<close>, \<open>-inf\<close> or \<open>nan\<close> (numpy warns and goes on)
    is \<open>None\<close> in a \<open>real option\<close>. Sums, differences, products, quotients by a finite
    number and logarithms of such a value are such a value again; where the program
    raises such a value to a power the model follows it no further and gives \<open>None\<close>.
  Python's own \<open>float\<close> and numpy's \<open>float64\<close> differ in one operation used by the
  program: \<open>a / b\<close> with \<open>b = 0\<close> raises ZeroDivisionError when both are Python floats, and
  is \<open>inf\<close> or \<open>nan\<close> when one of them is a numpy scalar. A number therefore carries the
  kind of its Python object.

  Integers reach numpy too: \<open>np.array\<close> of a list of Python integers is an array of
  \<open>int64\<close>. An \<open>int64\<close> is modelled as an integer, with the wrap-around of its arithmetic
  written out (\<open>wrap64\<close>); a Python integer handed to numpy is taken to fit \<open>int64\<close>.
  The conversion of an \<open>int64\<close> to a double is exact in the model, as all float arithmetic.
\<close>

datatype fault = ValueError | ZeroDivisionError | IndexError | KeyError | FileNotFoundError | OSError

datatype pyfloat = PyFloat real | NpFloat real

fun fval :: "pyfloat \<Rightarrow> real" where
  "fval (PyFloat x) = x"
| "fval (NpFloat x) = x"

fun is_py :: "pyfloat \<Rightarrow> bool" where
  "is_py (PyFloat x) = True"
| "is_py (NpFloat x) = False"

text \<open>\<open>max(a, b)\<close> and \<open>min(a, b)\<close> of Python return the first argument unless the second
  is strictly larger (smaller): the object, with its kind.\<close>

definition py_max :: "pyfloat \<Rightarrow> pyfloat \<Rightarrow> pyfloat" where
  "py_max a b = (if fval b > fval a then b else a)"

definition py_min :: "pyfloat \<Rightarrow> pyfloat \<Rightarrow> pyfloat" where
  "py_min a b = (if fval b < fval a then b else a)"

definition py_truediv :: "pyfloat \<Rightarrow> pyfloat \<Rightarrow> fault + real option" where
  "py_truediv a b =
     (if fval b = 0 then (if is_py a \<and> is_py b then Inl ZeroDivisionError else Inr None)
      else Inr (Some (fval a / fval b)))"

text \<open>Sequencing: an exception raised by a step ends the computation.\<close>

fun and_then :: "fault + 'a \<Rightarrow> ('a \<Rightarrow> fault + 'b) \<Rightarrow> fault + 'b" where
  "and_then (Inl e) f = Inl e"
| "and_then (Inr v) f = f v"

text \<open>numpy arithmetic on finite operands.\<close>

definition np_divide :: "real \<Rightarrow> real \<Rightarrow> real option" where
  "np_divide a b = (if b = 0 then None else Some (a / b))"

text \<open>\<open>x ** y\<close> of numpy (C \<open>pow\<close>): a zero base with a negative exponent is \<open>inf\<close>, a
  negative base with a fractional exponent is \<open>nan\<close>.\<close>

definition np_power :: "real \<Rightarrow> real \<Rightarrow> real option" where
  "np_power x y =
     (if 0 < x then Some (x powr y)
      else if x = 0 then (if 0 < y then Some 0 else if y = 0 then Some 1 else None)
      else if y = of_int \<lfloor>y\<rfloor> then Some (x powi \<lfloor>y\<rfloor>)
      else None)"

definition np_log :: "real option \<Rightarrow> real option" where
  "np_log q = (case q of None \<Rightarrow> None | Some r \<Rightarrow> if 0 < r then Some (ln r) else None)"

definition np_log10 :: "real \<Rightarrow> real option" where
  "np_log10 r = (if 0 < r then Some (log 10 r) else None)"

fun np_add :: "real option \<Rightarrow> real option \<Rightarrow> real option" where
  "np_add (Some a) (Some b) = Some (a + b)"
| "np_add _ _ = None"

fun np_subtract :: "real option \<Rightarrow> real option \<Rightarrow> real option" where
  "np_subtract (Some a) (Some b) = Some (a - b)"
| "np_subtract _ _ = None"

text \<open>Division of a possibly non-finite numpy value by a finite non-zero one.\<close>

fun np_divide_by :: "real option \<Rightarrow> real \<Rightarrow> real option" where
  "np_divide_by (Some a) b = np_divide a b"
| "np_divide_by None b = None"

text \<open>Indexing a Python list or a one-dimensional numpy array: a negative index counts
  from the end, an index out of range raises IndexError.\<close>

definition py_index :: "'a list \<Rightarrow> int \<Rightarrow> fault + 'a" where
  "py_index xs i =
     (if 0 \<le> i \<and> i < int (length xs) then Inr (xs ! nat i)
      else if i < 0 \<and> - int (length xs) \<le> i then Inr (xs ! nat (int (length xs) + i))
      else Inl IndexError)"

text \<open>\<open>np.searchsorted(a, v)\<close> (side left) on an increasing array: the number of elements
  below \<open>v\<close>, that is the first index whose element is at least \<open>v\<close>. numpy bisects and
  promises nothing for an array that is not increasing.\<close>

definition np_searchsorted :: "real list \<Rightarrow> real \<Rightarrow> nat" where
  "np_searchsorted a v = length (takeWhile (\<lambda>x. x < v) a)"

definition np_clip :: "int \<Rightarrow> int \<Rightarrow> int \<Rightarrow> int" where
  "np_clip x a_min a_max = min (max x a_min) a_max"

text \<open>\<open>np.diff\<close> of a one-dimensional array.\<close>

fun np_diff :: "real list \<Rightarrow> real list" where
  "np_diff (x # y # ys) = (y - x) # np_diff (y # ys)"
| "np_diff _ = []"

text \<open>The value of an \<open>int64\<close> computation whose exact result is \<open>z\<close>.\<close>

definition wrap64 :: "int \<Rightarrow> int" where
  "wrap64 z = (z + 2 ^ 63) mod 2 ^ 64 - 2 ^ 63"

text \<open>\<open>x ** k\<close> of two \<open>int64\<close> scalars: numpy raises ValueError (\<open>Integers to negative
  integer powers are not allowed\<close>) for a negative exponent, whatever the base.\<close>

definition int64_power :: "int \<Rightarrow> int \<Rightarrow> fault + int" where
  "int64_power x k = (if k < 0 then Inl ValueError else Inr (wrap64 (x ^ nat k)))"

text \<open>
  \<open>np.array(xs)\<close> of a Python list of numbers. The dtype is \<open>int64\<close> when the list is not
  empty and holds integers only, and \<open>float64\<close> otherwise (an integer beside a float is
  converted). An array is kept as its dtype and the list of its values; the values of an
  \<open>int64\<close> array are integers, read back with \<open>\<lfloor>_\<rfloor>\<close>.
\<close>

datatype dtype = int64 | float64

datatype item = IntItem int | FloatItem real

fun item_value :: "item \<Rightarrow> real" where
  "item_value (IntItem z) = of_int z"
| "item_value (FloatItem x) = x"

fun is_int_item :: "item \<Rightarrow> bool" where
  "is_int_item (IntItem z) = True"
| "is_int_item (FloatItem x) = False"

definition np_array_dtype :: "item list \<Rightarrow> dtype" where
  "np_array_dtype xs = (if xs \<noteq> [] \<and> list_all is_int_item xs then int64 else float64)"

definition np_array :: "item list \<Rightarrow> real list" where
  "np_array xs = map item_value xs"

text \<open>\<open>np.diff\<close> of an array of the given dtype: the differences of \<open>int64\<close> wrap around.\<close>

definition array_diff :: "dtype \<Rightarrow> real list \<Rightarrow> real list" where
  "array_diff dt xs =
     (case dt of
        int64 \<Rightarrow> map (\<lambda>d. of_int (wrap64 \<lfloor>d\<rfloor>)) (np_diff xs)
      | float64 \<Rightarrow> np_diff xs)"

text \<open>
  A number given to \<open>xi\<close>: a Python \<open>int\<close>, an \<open>int64\<close>, or a float of either kind.
\<close>

datatype number = PyInt int | NpInt int | FloatNum pyfloat

fun nval :: "number \<Rightarrow> real" where
  "nval (PyInt z) = of_int z"
| "nval (NpInt z) = of_int z"
| "nval (FloatNum x) = fval x"

fun is_integer :: "number \<Rightarrow> bool" where
  "is_integer (PyInt z) = True"
| "is_integer (NpInt z) = True"
| "is_integer (FloatNum x) = False"

fun is_python :: "number \<Rightarrow> bool" where
  "is_python (PyInt z) = True"
| "is_python (NpInt z) = False"
| "is_python (FloatNum x) = is_py x"

text \<open>\<open>1.0 / mass\<close>: Python raises ZeroDivisionError when \<open>mass\<close> is a Python number equal
  to zero; numpy divides a float by a zero of its own to \<open>inf\<close>.\<close>

definition one_over :: "number \<Rightarrow> fault + real option" where
  "one_over mass =
     (if nval mass = 0 then (if is_python mass then Inl ZeroDivisionError else Inr None)
      else Inr (Some (1 / nval mass)))"

text \<open>
  \<open>mass ** (-alpha)\<close> with \<open>alpha\<close> an element of an array of dtype \<open>dt\<close>. Python hands the
  operation to numpy (the exponent is a numpy scalar). When \<open>mass\<close> is an integer and the
  array is \<open>int64\<close> the power is an integer power; in every other case numpy converts both
  operands to \<open>float64\<close>.
\<close>

definition power_neg :: "number \<Rightarrow> dtype \<Rightarrow> real \<Rightarrow> fault + real option" where
  "power_neg mass dt alpha =
     (if is_integer mass \<and> dt = int64
      then and_then (int64_power \<lfloor>nval mass\<rfloor> (wrap64 (- \<lfloor>alpha\<rfloor>)))
             (\<lambda>p. Inr (Some (of_int p)))
      else Inr (np_power (nval mass) (- alpha)))"

section \<open>Model parameters (core/galaxy_module.py)\<close>

text \<open>\<open>ModelParameters\<close>: the fields the engine reads for the IMF, the tracks and the
  clock, with the defaults of the dataclass. The two lists of the IMF are Python lists: the
  readers of the text formats convert every entry with \<open>float()\<close>, the reader of the JSON
  format stores the lists as parsed, integers included.\<close>

record ModelParameters =
  num_intervals :: int
  exponents :: "item list"
  mass_limits :: "item list"
  metallicity_id :: int
  initial_time :: real
  time_scale :: int
  time_step :: real
  num_steps :: int
  max_time :: real

definition ModelParameters_default :: ModelParameters where
  "ModelParameters_default =
     \<lparr>num_intervals = 1, exponents = [FloatItem (235 / 100)],
      mass_limits = [FloatItem 1, FloatItem 100], metallicity_id = 0,
      initial_time = 0, time_scale = 0, time_step = 1, num_steps = 10, max_time = 100\<rparr>"

section \<open>The initial mass function (models/imf.py)\<close>

text \<open>The object: the two arrays with their dtypes, and the array of normalizations
  (\<open>float64\<close>, from \<open>np.zeros\<close>).\<close>

record IMF =
  intervals :: int
  exponents :: "real list"
  mass_limits :: "real list"
  normalizations :: "real option list"
  exponents_dtype :: dtype
  mass_limits_dtype :: dtype

text \<open>\<open>IMF._validate_parameters\<close>: three checks, each raising ValueError.\<close>

definition validate_parameters :: "int \<Rightarrow> real list \<Rightarrow> dtype \<Rightarrow> real list \<Rightarrow> fault + unit" where
  "validate_parameters n ex dm ml =
     (if int (length ex) \<noteq> n then Inl ValueError
      else if int (length ml) \<noteq> n + 1 then Inl ValueError
      else if \<not> list_all (\<lambda>d. d > 0) (array_diff dm ml) then Inl ValueError
      else Inr ())"

text \<open>
  \<open>IMF._calculate_normalizations\<close>, the value for segment \<open>i\<close>; it runs after the
  validation, which makes every index valid. \<open>exponents[i] + 1\<close> has the dtype of the
  exponents. When both arrays are \<open>int64\<close> the two powers are integer powers, which raise
  ValueError for a negative exponent; the difference of the powers is an \<open>int64\<close> and the
  quotient a \<open>float64\<close>. Otherwise the arithmetic is that of \<open>float64\<close>, which warns but
  never raises.
\<close>

definition plus_one :: "dtype \<Rightarrow> real \<Rightarrow> real" where
  "plus_one dt e = (case dt of int64 \<Rightarrow> of_int (wrap64 (\<lfloor>e\<rfloor> + 1)) | float64 \<Rightarrow> e + 1)"

definition normalization ::
  "dtype \<Rightarrow> real list \<Rightarrow> dtype \<Rightarrow> real list \<Rightarrow> nat \<Rightarrow> fault + real option" where
  "normalization de ex dm ml i =
     (if ex ! i \<noteq> -1 then
        (if de = int64 \<and> dm = int64 then
           (let k = wrap64 (\<lfloor>ex ! i\<rfloor> + 1) in
            and_then (int64_power \<lfloor>ml ! (i + 1)\<rfloor> k) (\<lambda>hi.
            and_then (int64_power \<lfloor>ml ! i\<rfloor> k) (\<lambda>lo.
              Inr (np_divide (of_int (wrap64 (hi - lo))) (of_int k)))))
         else
           Inr (np_divide_by (np_subtract (np_power (ml ! (i + 1)) (plus_one de (ex ! i)))
                                          (np_power (ml ! i) (plus_one de (ex ! i))))
                             (plus_one de (ex ! i))))
      else Inr (np_log (np_divide (ml ! (i + 1)) (ml ! i))))"

fun normalizations_loop ::
  "dtype \<Rightarrow> real list \<Rightarrow> dtype \<Rightarrow> real list \<Rightarrow> nat list \<Rightarrow> fault + real option list" where
  "normalizations_loop de ex dm ml [] = Inr []"
| "normalizations_loop de ex dm ml (i # is) =
     and_then (normalization de ex dm ml i) (\<lambda>v.
     and_then (normalizations_loop de ex dm ml is) (\<lambda>vs. Inr (v # vs)))"

definition calculate_normalizations ::
  "int \<Rightarrow> dtype \<Rightarrow> real list \<Rightarrow> dtype \<Rightarrow> real list \<Rightarrow> fault + real option list" where
  "calculate_normalizations n de ex dm ml = normalizations_loop de ex dm ml [0..<nat n]"

text \<open>\<open>IMF.__init__\<close>: the two lists become arrays, the parameters are validated, the
  normalizations are calculated.\<close>

definition IMF_init :: "int \<Rightarrow> item list \<Rightarrow> item list \<Rightarrow> fault + IMF" where
  "IMF_init n exl mll =
     and_then (validate_parameters n (np_array exl) (np_array_dtype mll) (np_array mll)) (\<lambda>u.
     and_then (calculate_normalizations n (np_array_dtype exl) (np_array exl)
                 (np_array_dtype mll) (np_array mll)) (\<lambda>norms.
       Inr \<lparr>intervals = n, exponents = np_array exl, mass_limits = np_array mll,
            normalizations = norms,
            exponents_dtype = np_array_dtype exl, mass_limits_dtype = np_array_dtype mll\<rparr>))"

text \<open>\<open>IMF.xi\<close>, the second definition of the class body (it replaces the first). With
  an \<open>interval\<close> given the range test is skipped.\<close>

definition xi_value :: "IMF \<Rightarrow> number \<Rightarrow> int \<Rightarrow> fault + real option" where
  "xi_value imf mass interval =
     and_then (py_index (exponents imf) interval)
       (\<lambda>alpha.
          if \<bar>alpha - 1\<bar> < 1 / 10 ^ 6 then one_over mass
          else if alpha \<noteq> -1 then power_neg mass (exponents_dtype imf) alpha
          else one_over mass)"

text \<open>The segment found for a mass: \<open>np.searchsorted(mass_limits, mass) - 1\<close>, clipped
  to \<open>[0, intervals - 1]\<close>.\<close>

definition find_interval :: "IMF \<Rightarrow> real \<Rightarrow> int" where
  "find_interval imf m =
     np_clip (int (np_searchsorted (mass_limits imf) m) - 1) 0 (intervals imf - 1)"

definition xi :: "IMF \<Rightarrow> number \<Rightarrow> int option \<Rightarrow> fault + real option" where
  "xi imf mass interval =
     (case interval of
        Some i \<Rightarrow> xi_value imf mass i
      | None \<Rightarrow>
          and_then (py_index (mass_limits imf) 0)
            (\<lambda>lo. if nval mass < lo then Inr (Some 0)
                  else and_then (py_index (mass_limits imf) (-1))
                         (\<lambda>hi. if nval mass > hi then Inr (Some 0)
                               else xi_value imf mass (find_interval imf (nval mass)))))"

text \<open>The first \<open>xi\<close> of the class body, which the second one shadows: it tests the
  exponent against \<open>-1\<close> only.\<close>

definition xi_shadowed :: "IMF \<Rightarrow> number \<Rightarrow> fault + real option" where
  "xi_shadowed imf mass =
     and_then (py_index (mass_limits imf) 0)
       (\<lambda>lo. if nval mass < lo then Inr (Some 0)
             else and_then (py_index (mass_limits imf) (-1))
                    (\<lambda>hi. if nval mass > hi then Inr (Some 0)
                          else and_then (py_index (exponents imf) (find_interval imf (nval mass)))
                                 (\<lambda>alpha. if alpha \<noteq> -1
                                          then power_neg mass (exponents_dtype imf) alpha
                                          else one_over mass)))"
text \<open>\<open>IMF.integrate\<close>. The term of one segment, and the body of the loop for segment
  \<open>i\<close> and the running \<open>total\<close> (here \<open>tot\<close>). The arithmetic is that of floats: \<open>integrate\<close>
  and \<open>sample\<close> are followed for an IMF whose arrays are \<open>float64\<close>.\<close>

definition integrate_term :: "pyfloat \<Rightarrow> pyfloat \<Rightarrow> real \<Rightarrow> fault + real option" where
  "integrate_term int_low int_high alpha =
     (if alpha \<noteq> -1 then
        (if alpha \<noteq> 1 then
           Inr (np_divide_by (np_subtract (np_power (fval int_high) (- alpha + 1))
                                          (np_power (fval int_low) (- alpha + 1))) (- alpha + 1))
         else and_then (py_truediv int_high int_low) (\<lambda>q. Inr (np_log q)))
      else and_then (py_truediv int_high int_low) (\<lambda>q. Inr (np_log q)))"

definition integrate_step ::
  "IMF \<Rightarrow> pyfloat \<Rightarrow> pyfloat \<Rightarrow> real option \<Rightarrow> nat \<Rightarrow> fault + real option" where
  "integrate_step imf m_low m_high tot i =
     and_then (py_index (mass_limits imf) (int i)) (\<lambda>li.
     and_then (py_index (mass_limits imf) (int i + 1)) (\<lambda>li1.
       (let int_low = py_max m_low (NpFloat li);
            int_high = py_min m_high (NpFloat li1)
        in if fval int_low < fval int_high then
             and_then (py_index (exponents imf) (int i)) (\<lambda>alpha.
             and_then (integrate_term int_low int_high alpha) (\<lambda>c.
               Inr (np_add tot c)))
           else Inr tot)))"

fun integrate_loop ::
  "IMF \<Rightarrow> pyfloat \<Rightarrow> pyfloat \<Rightarrow> nat list \<Rightarrow> real option \<Rightarrow> fault + real option" where
  "integrate_loop imf m_low m_high [] tot = Inr tot"
| "integrate_loop imf m_low m_high (i # is) tot =
     and_then (integrate_step imf m_low m_high tot i)
       (\<lambda>tot'. integrate_loop imf m_low m_high is tot')"

definition integrate :: "IMF \<Rightarrow> pyfloat \<Rightarrow> pyfloat \<Rightarrow> fault + real option" where
  "integrate imf m_low m_high =
     and_then (py_index (mass_limits imf) 0) (\<lambda>l_first.
     and_then (py_index (mass_limits imf) (-1)) (\<lambda>l_last.
       (let m_low' = py_max m_low (NpFloat l_first);
            m_high' = py_min m_high (NpFloat l_last)
        in if fval m_low' \<ge> fval m_high' then Inr (Some 0)
           else integrate_loop imf m_low' m_high' [0..<nat (intervals imf)] (Some 0))))"

text \<open>
  \<open>IMF.sample\<close>. The generator of \<open>np.random\<close> is a global state: \<open>seed_state s\<close> is the
  state after \<open>np.random.seed(s)\<close> and \<open>random_sample g\<close> draws one uniform number of
  \<open>[0, 1)\<close> and gives the next state. The Mersenne Twister itself is a parameter.
\<close>

record 'g np_random =
  seed_state :: "int \<Rightarrow> 'g"
  random_sample :: "'g \<Rightarrow> real \<times> 'g"

text \<open>The weights of the segments: \<open>integrate\<close> over each segment, with the array
  elements (numpy scalars) as arguments.\<close>

fun interval_integrals :: "IMF \<Rightarrow> nat list \<Rightarrow> fault + real option list" where
  "interval_integrals imf [] = Inr []"
| "interval_integrals imf (i # is) =
     and_then (py_index (mass_limits imf) (int i)) (\<lambda>li.
     and_then (py_index (mass_limits imf) (int i + 1)) (\<lambda>li1.
     and_then (integrate imf (NpFloat li) (NpFloat li1)) (\<lambda>p.
     and_then (interval_integrals imf is) (\<lambda>ps.
       Inr (p # ps)))))"

text \<open>\<open>interval_probs /= interval_probs.sum()\<close>: one non-finite entry, or a zero sum,
  leaves a \<open>nan\<close> or an \<open>inf\<close> in the array.\<close>

definition normalize_probs :: "real option list \<Rightarrow> real list option" where
  "normalize_probs ps =
     (if list_all (\<lambda>p. p \<noteq> None) ps \<and> sum_list (map the ps) \<noteq> 0
      then Some (map (\<lambda>p. the p / sum_list (map the ps)) ps)
      else None)"

fun cumsum :: "real \<Rightarrow> real list \<Rightarrow> real list" where
  "cumsum acc [] = []"
| "cumsum acc (p # ps) = (acc + p) # cumsum (acc + p) ps"

text \<open>\<open>np.random.choice(a, p=p)\<close> for an integer \<open>a\<close>: ValueError unless \<open>a\<close> is positive and
  \<open>p\<close> is an array of \<open>a\<close> finite non-negative numbers of sum one; then one uniform draw
  \<open>u\<close> is located in the cumulative sums (\<open>searchsorted\<close>, side right).\<close>

definition np_random_choice ::
  "'g np_random \<Rightarrow> int \<Rightarrow> real list option \<Rightarrow> 'g \<Rightarrow> fault + nat \<times> 'g" where
  "np_random_choice rng a p g =
     (case p of
        None \<Rightarrow> Inl ValueError
      | Some ps \<Rightarrow>
          if a \<le> 0 \<or> int (length ps) \<noteq> a \<or> \<not> list_all (\<lambda>x. 0 \<le> x) ps \<or> sum_list ps \<noteq> 1
          then Inl ValueError
          else (let (u, g') = random_sample rng g;
                    cdf = map (\<lambda>c. c / last (cumsum 0 ps)) (cumsum 0 ps)
                in Inr (length (takeWhile (\<lambda>c. c \<le> u) cdf), g')))"

fun np_multiply :: "real option \<Rightarrow> real option \<Rightarrow> real option" where
  "np_multiply (Some a) (Some b) = Some (a * b)"
| "np_multiply _ _ = None"

fun np_power_of :: "real option \<Rightarrow> real \<Rightarrow> real option" where
  "np_power_of (Some a) y = np_power a y"
| "np_power_of None y = None"

text \<open>
  The mass drawn inside a segment. All operands are numpy scalars, so nothing raises.
  For \<open>alpha = 1\<close> the exponent \<open>1/(-alpha+1)\<close> is \<open>1/0.0 = inf\<close>; both powers are
  \<open>x ** 0.0 = 1.0\<close>, the base is \<open>u * 0.0 + 1.0 = 1.0\<close> and \<open>1.0 ** inf\<close> is \<open>1.0\<close>. In every
  other case a base that is not finite is followed no further.
\<close>

definition draw_mass :: "real \<Rightarrow> real \<Rightarrow> real \<Rightarrow> real \<Rightarrow> real option" where
  "draw_mass u m_low m_high alpha =
     (if alpha \<noteq> -1 then
        (if - alpha + 1 = 0 then Some 1
         else np_power_of
                (np_add (np_multiply (Some u)
                           (np_subtract (np_power m_high (- alpha + 1))
                                        (np_power m_low (- alpha + 1))))
                        (np_power m_low (- alpha + 1)))
                (1 / (- alpha + 1)))
      else np_multiply (Some m_low) (np_power_of (np_divide m_high m_low) u))"

fun sample_loop ::
  "'g np_random \<Rightarrow> IMF \<Rightarrow> real list option \<Rightarrow> nat \<Rightarrow> 'g \<Rightarrow> fault + real option list \<times> 'g" where
  "sample_loop rng imf probs 0 g = Inr ([], g)"
| "sample_loop rng imf probs (Suc k) g =
     and_then (np_random_choice rng (intervals imf) probs g) (\<lambda>(interval, g1).
       (let (u, g2) = random_sample rng g1 in
        and_then (py_index (mass_limits imf) (int interval)) (\<lambda>m_low.
        and_then (py_index (mass_limits imf) (int interval + 1)) (\<lambda>m_high.
        and_then (py_index (exponents imf) (int interval)) (\<lambda>alpha.
        and_then (sample_loop rng imf probs k g2) (\<lambda>(masses, g3).
          Inr (draw_mass u m_low m_high alpha # masses, g3)))))))"

text \<open>\<open>sample(n_stars, seed)\<close> run in the global generator state \<open>g\<close>; it returns the
  masses and the state it leaves. \<open>range(n_stars)\<close> is empty for a negative \<open>n_stars\<close>.\<close>

definition sample ::
  "'g np_random \<Rightarrow> IMF \<Rightarrow> int \<Rightarrow> int option \<Rightarrow> 'g \<Rightarrow> fault + real option list \<times> 'g" where
  "sample rng imf n_stars seed g =
     (let g0 = (case seed of None \<Rightarrow> g | Some s \<Rightarrow> seed_state rng s) in
      and_then (interval_integrals imf [0..<nat (intervals imf)])
        (\<lambda>ps. sample_loop rng imf (normalize_probs ps) (nat n_stars) g0))"

section \<open>Stellar evolution tracks (models/stellar_tracks.py)\<close>

text \<open>One track is a dictionary of six arrays, one entry per tabulated age.\<close>

record track =
  time :: "real list"
  luminosity :: "real list"
  temperature :: "real list"
  radius :: "real list"
  mass_loss_rate :: "real list"
  stellar_type :: "int list"

text \<open>The data model of a track: at least one point, ages strictly increasing, one value
  of every field per age.\<close>

definition wf_track :: "track \<Rightarrow> bool" where
  "wf_track tr \<longleftrightarrow>
     time tr \<noteq> [] \<and> sorted_wrt (<) (time tr) \<and>
     length (luminosity tr) = length (time tr) \<and> length (temperature tr) = length (time tr) \<and>
     length (radius tr) = length (time tr) \<and> length (mass_loss_rate tr) = length (time tr) \<and>
     length (stellar_type tr) = length (time tr)"

text \<open>The tracks of one metallicity: a dictionary from the initial mass to its track, in
  insertion order.\<close>

type_synonym track_table = "(real \<times> track) list"

record StellarTracks =
  data_dir :: string
  tracks :: "string \<rightharpoonup> track_table"
  metallicities :: "string list"

definition StellarTracks_init :: StellarTracks where
  "StellarTracks_init = \<lparr>data_dir = ''data/tracks'', tracks = Map.empty, metallicities = []\<rparr>"

text \<open>
  The files: a path that does not exist is \<open>None\<close>; for one that exists, reading and
  parsing it either raises or gives a table. The text parser of \<open>load_tracks\<close> (splitting
  lines, \<open>float()\<close>, \<open>int()\<close>) is not modelled: its result is part of the file system.
\<close>

type_synonym file_system = "string \<rightharpoonup> fault + track_table"

definition load_tracks :: "file_system \<Rightarrow> StellarTracks \<Rightarrow> string \<Rightarrow> fault + StellarTracks" where
  "load_tracks fs st metallicity =
     (case fs (data_dir st @ ''/'' @ metallicity @ ''.txt'') of
        None \<Rightarrow> Inl FileNotFoundError
      | Some (Inl e) \<Rightarrow> Inl e
      | Some (Inr mass_data) \<Rightarrow>
          Inr (st\<lparr>tracks := (tracks st)(metallicity \<mapsto> mass_data),
                   metallicities := metallicities st @ [metallicity]\<rparr>))"

text \<open>\<open>np.interp(x, xp, fp)\<close> for an increasing \<open>xp\<close>: \<open>fp[0]\<close> below \<open>xp[0]\<close>, \<open>fp[-1]\<close> above
  \<open>xp[-1]\<close>; otherwise, with \<open>j\<close> the last index such that \<open>xp[j] \<le> x\<close>, the value \<open>fp[j]\<close> when
  \<open>j\<close> is the last index or \<open>x = xp[j]\<close>, and \<open>slope * (x - xp[j]) + fp[j]\<close> else. numpy does
  not check that \<open>xp\<close> is increasing and promises nothing when it is not.\<close>

fun interp_scan :: "real \<Rightarrow> real list \<Rightarrow> real list \<Rightarrow> real" where
  "interp_scan x (x0 # x1 # xs) (y0 # y1 # ys) =
     (if x < x1 then (if x = x0 then y0 else (y1 - y0) / (x1 - x0) * (x - x0) + y0)
      else interp_scan x (x1 # xs) (y1 # ys))"
| "interp_scan x [x0] (y0 # ys) = y0"
| "interp_scan x xs ys = 0"

definition np_interp :: "real \<Rightarrow> real list \<Rightarrow> real list \<Rightarrow> fault + real" where
  "np_interp x xp fp =
     (if xp = [] then Inl ValueError
      else if length fp \<noteq> length xp then Inl ValueError
      else if x < hd xp then Inr (hd fp)
      else if x > last xp then Inr (last fp)
      else Inr (interp_scan x xp fp))"

text \<open>Division of Python floats.\<close>

definition float_truediv :: "real \<Rightarrow> real \<Rightarrow> fault + real" where
  "float_truediv a b = (if b = 0 then Inl ZeroDivisionError else Inr (a / b))"

text \<open>\<open>track_data[m]\<close>; the keys tried are keys of the dictionary.\<close>

definition dict_get :: "track_table \<Rightarrow> real \<Rightarrow> fault + track" where
  "dict_get track_data m = (case map_of track_data m of None \<Rightarrow> Inl KeyError | Some tr \<Rightarrow> Inr tr)"

text \<open>The interpolated properties, a dictionary with five keys.\<close>

record props =
  props_luminosity :: real
  props_temperature :: real
  props_radius :: real
  props_mass_loss_rate :: real
  props_stellar_type :: int

text \<open>The tabulated point \<open>k\<close> of a track, as properties.\<close>

definition point_props :: "track \<Rightarrow> nat \<Rightarrow> props" where
  "point_props tr k =
     \<lparr>props_luminosity = luminosity tr ! k, props_temperature = temperature tr ! k,
      props_radius = radius tr ! k, props_mass_loss_rate = mass_loss_rate tr ! k,
      props_stellar_type = stellar_type tr ! k\<rparr>"

text \<open>The value of one array of a track at age \<open>t\<close> with the ends held: the first value
  below the first tabulated age, the last value above the last one, and in between the
  value on the segment through the two neighbouring points.\<close>

definition held_value :: "track \<Rightarrow> (track \<Rightarrow> real list) \<Rightarrow> real \<Rightarrow> real" where
  "held_value tr key t =
     (if t < hd (time tr) then key tr ! 0
      else if last (time tr) < t then key tr ! (length (time tr) - 1)
      else interp_scan t (time tr) (key tr))"

text \<open>The stellar type of a track at age \<open>t\<close>: \<open>searchsorted\<close>, clipped to the array.\<close>

definition type_at :: "track \<Rightarrow> real \<Rightarrow> fault + int" where
  "type_at tr t =
     py_index (stellar_type tr)
       (np_clip (int (np_searchsorted (time tr) t)) 0 (int (length (stellar_type tr)) - 1))"

text \<open>One continuous property between two tracks: in time in each, then in mass.\<close>

definition blend :: "real \<Rightarrow> real \<Rightarrow> real \<Rightarrow> track \<Rightarrow> track \<Rightarrow> (track \<Rightarrow> real list) \<Rightarrow> fault + real" where
  "blend w1 w2 t track1 track2 key =
     and_then (np_interp t (time track1) (key track1)) (\<lambda>val1.
     and_then (np_interp t (time track2) (key track2)) (\<lambda>val2.
       Inr (w1 * val1 + w2 * val2)))"

definition interpolate_between ::
  "real \<Rightarrow> real \<Rightarrow> real \<Rightarrow> track \<Rightarrow> track \<Rightarrow> fault + props" where
  "interpolate_between w1 w2 t track1 track2 =
     and_then (blend w1 w2 t track1 track2 luminosity) (\<lambda>lum.
     and_then (blend w1 w2 t track1 track2 temperature) (\<lambda>temp.
     and_then (blend w1 w2 t track1 track2 radius) (\<lambda>rad.
     and_then (blend w1 w2 t track1 track2 mass_loss_rate) (\<lambda>mlr.
     and_then (if w1 > 1 / 2 then type_at track1 t else type_at track2 t) (\<lambda>ty.
       Inr \<lparr>props_luminosity = lum, props_temperature = temp, props_radius = rad,
             props_mass_loss_rate = mlr, props_stellar_type = ty\<rparr>)))))"

definition interpolate_single :: "real \<Rightarrow> track \<Rightarrow> fault + props" where
  "interpolate_single t tr =
     and_then (np_interp t (time tr) (luminosity tr)) (\<lambda>lum.
     and_then (np_interp t (time tr) (temperature tr)) (\<lambda>temp.
     and_then (np_interp t (time tr) (radius tr)) (\<lambda>rad.
     and_then (np_interp t (time tr) (mass_loss_rate tr)) (\<lambda>mlr.
     and_then (type_at tr t) (\<lambda>ty.
       Inr \<lparr>props_luminosity = lum, props_temperature = temp, props_radius = rad,
             props_mass_loss_rate = mlr, props_stellar_type = ty\<rparr>)))))"

text \<open>\<open>StellarTracks.interpolate_track\<close> from \<open>track_data = self.tracks[metallicity]\<close> on;
  \<open>t\<close> is the argument \<open>time\<close>.\<close>

definition interpolate_in_table :: "track_table \<Rightarrow> real \<Rightarrow> real \<Rightarrow> fault + props" where
  "interpolate_in_table track_data mass t =
     (let masses = sort (map fst track_data) in
      and_then (py_index masses 0) (\<lambda>m_first.
        if mass \<le> m_first then
          and_then (dict_get track_data m_first) (interpolate_single t)
        else
          and_then (py_index masses (-1)) (\<lambda>m_last.
            if mass \<ge> m_last then
              and_then (dict_get track_data m_last) (interpolate_single t)
            else
              (let idx = int (np_searchsorted masses mass) in
               and_then (py_index masses (idx - 1)) (\<lambda>m1.
               and_then (py_index masses idx) (\<lambda>m2.
               and_then (dict_get track_data m1) (\<lambda>track1.
               and_then (dict_get track_data m2) (\<lambda>track2.
               and_then (float_truediv (m2 - mass) (m2 - m1)) (\<lambda>w1.
               and_then (float_truediv (mass - m1) (m2 - m1)) (\<lambda>w2.
                 interpolate_between w1 w2 t track1 track2))))))))))"

text \<open>\<open>StellarTracks.interpolate_track\<close>: the table is loaded on first use.\<close>

definition interpolate_track ::
  "file_system \<Rightarrow> StellarTracks \<Rightarrow> real \<Rightarrow> real \<Rightarrow> string \<Rightarrow> fault + props \<times> StellarTracks" where
  "interpolate_track fs st mass t metallicity =
     and_then (if metallicity \<in> dom (tracks st) then Inr st else load_tracks fs st metallicity)
       (\<lambda>st'. case tracks st' metallicity of
                None \<Rightarrow> Inl KeyError
              | Some track_data \<Rightarrow>
                  and_then (interpolate_in_table track_data mass t) (\<lambda>p. Inr (p, st')))"

text \<open>\<open>StellarTracks.get_lifetime\<close> from \<open>track_data = self.tracks[metallicity]\<close> on. The
  interpolation is \<open>np.interp\<close> on the decimal logarithms of the two masses and of the two
  final ages; a logarithm that is not finite is followed no further (\<open>None\<close>).\<close>

definition log_interp :: "real \<Rightarrow> real \<Rightarrow> real \<Rightarrow> real \<Rightarrow> real \<Rightarrow> fault + real option" where
  "log_interp mass m1 m2 life1 life2 =
     (case (np_log10 mass, np_log10 m1, np_log10 m2, np_log10 life1, np_log10 life2) of
        (Some x, Some x1, Some x2, Some y1, Some y2) \<Rightarrow>
          and_then (np_interp x [x1, x2] [y1, y2]) (\<lambda>log_life. Inr (np_power 10 log_life))
      | _ \<Rightarrow> Inr None)"

definition final_age :: "track \<Rightarrow> fault + real" where
  "final_age tr = py_index (time tr) (-1)"

definition lifetime_in_table :: "track_table \<Rightarrow> real \<Rightarrow> fault + real option" where
  "lifetime_in_table track_data mass =
     (let masses = sort (map fst track_data) in
      and_then (py_index masses 0) (\<lambda>m_first.
        if mass \<le> m_first then
          and_then (dict_get track_data m_first) (\<lambda>tr.
          and_then (final_age tr) (\<lambda>l. Inr (Some l)))
        else
          and_then (py_index masses (-1)) (\<lambda>m_last.
            if mass \<ge> m_last then
              and_then (dict_get track_data m_last) (\<lambda>tr.
              and_then (final_age tr) (\<lambda>l. Inr (Some l)))
            else
              (let idx = int (np_searchsorted masses mass) in
               and_then (py_index masses (idx - 1)) (\<lambda>m1.
               and_then (py_index masses idx) (\<lambda>m2.
               and_then (dict_get track_data m1) (\<lambda>track1.
               and_then (final_age track1) (\<lambda>life1.
               and_then (dict_get track_data m2) (\<lambda>track2.
               and_then (final_age track2) (\<lambda>life2.
                 log_interp mass m1 m2 life1 life2))))))))))"

definition get_lifetime ::
  "file_system \<Rightarrow> StellarTracks \<Rightarrow> real \<Rightarrow> string \<Rightarrow> fault + real option \<times> StellarTracks" where
  "get_lifetime fs st mass metallicity =
     and_then (if metallicity \<in> dom (tracks st) then Inr st else load_tracks fs st metallicity)
       (\<lambda>st'. case tracks st' metallicity of
                None \<Rightarrow> Inl KeyError
              | Some track_data \<Rightarrow>
                  and_then (lifetime_in_table track_data mass) (\<lambda>l. Inr (l, st')))"

section \<open>Track data of the driver (core/galaxy_module.py)\<close>

text \<open>\<open>TrackData\<close>: arrays indexed by mass and by time point; an array that is \<open>None\<close> in
  Python is \<open>None\<close> here.\<close>

record TrackData =
  num_masses :: int
  num_points :: int
  init_mass :: "real list option"
  log_init_mass :: "real list option"
  age :: "real list list option"
  log_age :: "real list list option"
  mass :: "real list list option"
  log_mass :: "real list list option"
  log_lum :: "real list list option"
  log_teff :: "real list list option"
  mdot :: "real list list option"
  h_frac :: "real list list option"
  he_frac :: "real list list option"
  c_frac :: "real list list option"
  n_frac :: "real list list option"
  o_frac :: "real list list option"

definition TrackData_new :: TrackData where
  "TrackData_new =
     \<lparr>num_masses = 0, num_points = 0, init_mass = None, log_init_mass = None, age = None,
      log_age = None, mass = None, log_mass = None, log_lum = None, log_teff = None,
      mdot = None, h_frac = None, he_frac = None, c_frac = None, n_frac = None, o_frac = None\<rparr>"

text \<open>\<open>TrackData.init\<close>: every array is filled with zeros; \<open>np.zeros\<close> raises ValueError
  for a negative size.\<close>

definition TrackData_init :: "TrackData \<Rightarrow> int \<Rightarrow> int \<Rightarrow> fault + TrackData" where
  "TrackData_init td n_masses n_points =
     (if n_masses < 0 \<or> n_points < 0 then Inl ValueError
      else (let z1 = Some (replicate (nat n_masses) 0);
                z2 = Some (replicate (nat n_masses) (replicate (nat n_points) 0))
            in Inr (td\<lparr>num_masses := n_masses, num_points := n_points, init_mass := z1,
                       log_init_mass := z1, age := z2, log_age := z2, mass := z2,
                       log_mass := z2, log_lum := z2, log_teff := z2, mdot := z2,
                       h_frac := z2, he_frac := z2, c_frac := z2, n_frac := z2, o_frac := z2\<rparr>)))"

text \<open>The attributes interpolated by \<open>interpolate_in_time\<close>, in the order of its loop.\<close>

definition interpolated_attrs :: "(string \<times> (TrackData \<Rightarrow> real list list option)) list" where
  "interpolated_attrs =
     [(''mass'', mass), (''log_lum'', log_lum), (''log_teff'', log_teff), (''mdot'', mdot),
      (''h_frac'', h_frac), (''he_frac'', he_frac), (''c_frac'', c_frac), (''n_frac'', n_frac),
      (''o_frac'', o_frac)]"

text \<open>\<open>arr[i, j]\<close> of a two-dimensional array.\<close>

definition index2 :: "real list list \<Rightarrow> int \<Rightarrow> int \<Rightarrow> fault + real" where
  "index2 arr i j = and_then (py_index arr i) (\<lambda>row. py_index row j)"

fun interpolate_attrs ::
  "TrackData \<Rightarrow> int \<Rightarrow> int \<Rightarrow> real \<Rightarrow> (string \<times> (TrackData \<Rightarrow> real list list option)) list
     \<Rightarrow> fault + (string \<times> real) list" where
  "interpolate_attrs td mass_idx idx f [] = Inr []"
| "interpolate_attrs td mass_idx idx f ((attr, get) # rest) =
     (case get td of
        None \<Rightarrow> interpolate_attrs td mass_idx idx f rest
      | Some arr \<Rightarrow>
          and_then (index2 arr mass_idx (idx - 1)) (\<lambda>v0.
          and_then (index2 arr mass_idx idx) (\<lambda>v1.
          and_then (interpolate_attrs td mass_idx idx f rest) (\<lambda>result.
            Inr ((attr, v0 + f * (v1 - v0)) # result)))))"

text \<open>\<open>TrackData.interpolate_in_time\<close>; \<open>t\<close> is the argument \<open>time\<close>. The result is the
  dictionary of interpolated values, empty when there are no ages or no such mass.\<close>

definition interpolate_in_time :: "TrackData \<Rightarrow> int \<Rightarrow> real \<Rightarrow> fault + (string \<times> real) list" where
  "interpolate_in_time td mass_idx t =
     (case age td of
        None \<Rightarrow> Inr []
      | Some age_arr \<Rightarrow>
          if mass_idx \<ge> num_masses td then Inr []
          else
            and_then (py_index age_arr mass_idx) (\<lambda>ages.
              (let found = int (np_searchsorted ages t);
                   idx = (if found = 0 then 1
                          else if found \<ge> num_points td then num_points td - 1
                          else found)
               in and_then (py_index ages (idx - 1)) (\<lambda>t0.
                  and_then (py_index ages idx) (\<lambda>t1.
                    (let f = (if t1 > t0 then (t - t0) / (t1 - t0) else 0)
                     in interpolate_attrs td mass_idx idx f interpolated_attrs))))))"

text \<open>The shape of track data: every array that is there has \<open>num_masses\<close> rows of
  \<open>num_points\<close> values.\<close>

definition wf_TrackData :: "TrackData \<Rightarrow> bool" where
  "wf_TrackData td \<longleftrightarrow>
     (\<forall>arr. (age td = Some arr \<or> (\<exists>(attr, get) \<in> set interpolated_attrs. get td = Some arr)) \<longrightarrow>
        int (length arr) = num_masses td \<and> (\<forall>row \<in> set arr. int (length row) = num_points td))"

text \<open>The straight line through the points \<open>k\<close> and \<open>k + 1\<close> of a track, at \<open>t\<close>; and that
  line for every attribute of mass \<open>i\<close> that has an array.\<close>

definition line_through :: "real list \<Rightarrow> real list \<Rightarrow> nat \<Rightarrow> real \<Rightarrow> real" where
  "line_through xs ys k t = ys ! k + (t - xs ! k) / (xs ! Suc k - xs ! k) * (ys ! Suc k - ys ! k)"

definition lines_through :: "TrackData \<Rightarrow> nat \<Rightarrow> nat \<Rightarrow> real \<Rightarrow> (string \<times> real) list" where
  "lines_through td i k t =
     concat (map (\<lambda>(attr, get). case get td of
                                   None \<Rightarrow> []
                                 | Some arr \<Rightarrow> [(attr, line_through (the (age td) ! i) (arr ! i) k t)])
                 interpolated_attrs)"

section \<open>The driver (starburst_main.py)\<close>

text \<open>\<open>GalaxyModel\<close>: the fields of the clock, the track selection and the track list, with
  the values \<open>GalaxyModel.__init__\<close> gives them.\<close>

record GalaxyModel =
  iz :: int
  time1 :: real
  jtime :: int
  tbiv :: real
  itbiv :: int
  tmax :: real
  tvar :: real
  tstep :: real
  tracks :: "TrackData list"

definition GalaxyModel_init :: GalaxyModel where
  "GalaxyModel_init =
     \<lparr>iz = 0, time1 = 0, jtime = 0, tbiv = 1, itbiv = 10, tmax = 100, tvar = 0, tstep = 0,
      tracks = []\<rparr>"

datatype level = INFO | WARNING | ERROR

text \<open>\<open>Starburst99\<close>: \<open>sb_time\<close> and \<open>sb_icount\<close> are \<open>self.time\<close> and \<open>self.icount\<close>,
  \<open>logged\<close> holds the warnings and errors of \<open>self.logger\<close>, level and text without the
  interpolated path or exception.\<close>

record Starburst99 =
  galaxy :: GalaxyModel
  stellar_tracks :: StellarTracks
  stellar_tracks_data :: "TrackData option"
  sb_time :: real
  sb_icount :: int
  logged :: "(level \<times> string) list"

definition Starburst99_init :: Starburst99 where
  "Starburst99_init =
     \<lparr>galaxy = GalaxyModel_init, stellar_tracks = StellarTracks_init,
      stellar_tracks_data = None, sb_time = 0, sb_icount = 1, logged = []\<rparr>"

text \<open>\<open>Starburst99._sync_parameters\<close>, for the fields above. No statement of the program
  assigns \<open>tstep\<close> or \<open>tvar\<close> from the parameters.\<close>

definition sync_parameters :: "ModelParameters \<Rightarrow> Starburst99 \<Rightarrow> Starburst99" where
  "sync_parameters params s =
     s\<lparr>galaxy := (galaxy s)\<lparr>iz := metallicity_id params, time1 := initial_time params,
                             jtime := time_scale params, tbiv := time_step params,
                             itbiv := num_steps params, tmax := max_time params\<rparr>\<rparr>"

text \<open>\<open>Starburst99._read_tracks\<close>.\<close>

definition track_files :: "(int \<times> string) list" where
  "track_files =
     [(11, ''Z0020v00.txt''), (21, ''Z0020v40.txt''), (12, ''Z0020v00.txt''), (22, ''Z0020v40.txt''),
      (13, ''Z0140v00.txt''), (23, ''Z0140v40.txt''), (14, ''Z0140v00.txt''), (24, ''Z0140v40.txt''),
      (15, ''Z0140v00.txt''), (25, ''Z0140v40.txt''),
      (41, ''modp0004.dat''), (42, ''modp004.dat''), (43, ''modp008.dat''), (44, ''modp020.dat''),
      (45, ''modp050.dat''),
      (51, ''mode001.dat''), (61, ''modc001.dat''), (52, ''mode004.dat''), (62, ''modc004.dat''),
      (53, ''mode008.dat''), (63, ''modc008.dat''), (54, ''mode020.dat''), (64, ''modc020.dat''),
      (55, ''mode040.dat''), (65, ''modc040.dat'')]"

definition track_filename :: "int \<Rightarrow> string" where
  "track_filename z = (case map_of track_files z of None \<Rightarrow> ''Z0140v00.txt'' | Some f \<Rightarrow> f)"

text \<open>\<open>Path.stem\<close> of a file name with one suffix, as all names of the table are.\<close>

definition stem :: "string \<Rightarrow> string" where
  "stem name =
     (if CHR ''.'' \<in> set name then rev (tl (dropWhile (\<lambda>c. c \<noteq> CHR ''.'') (rev name)))
      else name)"

text \<open>\<open>Path("data/tracks") / filename\<close>.\<close>

definition track_path :: "string \<Rightarrow> string" where
  "track_path filename = ''data/tracks/'' @ filename"

text \<open>\<open>_read_tracks\<close> returns the new state and the exception that leaves it, if one
  does. First the \<open>try\<close> block.\<close>

definition try_load :: "file_system \<Rightarrow> Starburst99 \<Rightarrow> string \<Rightarrow> fault + StellarTracks \<times> TrackData" where
  "try_load fs s name =
     and_then (load_tracks fs (stellar_tracks s) (stem name)) (\<lambda>st.
     and_then (TrackData_init TrackData_new 1 100) (\<lambda>track_data.
       Inr (st, track_data)))"

text \<open>The \<open>try\<close> statement with its handler: whatever the block raises, the handler logs
  an error and installs one track data object filled by \<open>init(1, 100)\<close>.\<close>

definition load_or_fallback :: "file_system \<Rightarrow> Starburst99 \<Rightarrow> string \<Rightarrow> Starburst99 \<times> fault option" where
  "load_or_fallback fs s name =
     (case try_load fs s name of
        Inr (st, track_data) \<Rightarrow>
          (s\<lparr>stellar_tracks := st, stellar_tracks_data := Some track_data,
             galaxy := (galaxy s)\<lparr>tracks := [track_data]\<rparr>\<rparr>, None)
      | Inl e \<Rightarrow>
          (let s2 = s\<lparr>logged := logged s @ [(ERROR, ''Error reading tracks'')]\<rparr>
           in case TrackData_init TrackData_new 1 100 of
                Inl e' \<Rightarrow> (s2, Some e')
              | Inr track_data \<Rightarrow>
                  (s2\<lparr>galaxy := (galaxy s2)\<lparr>tracks := [track_data]\<rparr>\<rparr>, None)))"

definition read_tracks :: "file_system \<Rightarrow> Starburst99 \<Rightarrow> Starburst99 \<times> fault option" where
  "read_tracks fs s =
     (let filename = track_filename (iz (galaxy s));
          missing = (fs (track_path filename) = None);
          s1 = (if missing
                then s\<lparr>logged := logged s @ [(WARNING, ''Track file not found, using default'')]\<rparr>
                else s);
          name = (if missing then ''Z0140v00.txt'' else filename)
      in if fs (track_path name) = None then (s1, Some FileNotFoundError)
         else load_or_fallback fs s1 name)"

text \<open>
  \<open>Starburst99._main_calculation_loop\<close>, for the clock. The calculators called by the body
  read \<open>self.time\<close> and \<open>self.icount\<close> and write neither, nor any field of the clock; of the
  body the model keeps the call \<open>_output(self.time, self.icount)\<close>, collected in \<open>out\<close>,
  the update of the time, the test and the increment of \<open>icount\<close>. The loop need not end.
\<close>

definition update_time :: "Starburst99 \<Rightarrow> Starburst99" where
  "update_time s =
     (if jtime (galaxy s) = 0 then s\<lparr>sb_time := sb_time s + tbiv (galaxy s)\<rparr>
      else (let g = (if sb_icount s = 1 then (galaxy s)\<lparr>tvar := time1 (galaxy s)\<rparr>
                     else (galaxy s)\<lparr>tvar := tvar (galaxy s) * tstep (galaxy s)\<rparr>)
            in s\<lparr>galaxy := g, sb_time := tvar g\<rparr>))"

definition continue_evolution :: "Starburst99 \<Rightarrow> bool" where
  "continue_evolution s =
     (if jtime (galaxy s) = 0 then \<not> sb_time s > tmax (galaxy s)
      else \<not> sb_icount s \<ge> itbiv (galaxy s))"

partial_function (option) main_calculation_loop ::
  "Starburst99 \<Rightarrow> (real \<times> int) list \<Rightarrow> (Starburst99 \<times> (real \<times> int) list) option" where
  "main_calculation_loop s out =
     (let out' = out @ [(sb_time s, sb_icount s)];
          s1 = update_time s;
          s2 = s1\<lparr>sb_icount := sb_icount s1 + 1\<rparr>
      in if continue_evolution s1 then main_calculation_loop s2 out' else Some (s2, out'))"

text \<open>
  \<open>Starburst99.run\<close>, up to the construction of the IMF. The steps before it (module
  initialisation; reading the parameters, with \<open>_sync_parameters\<close> and the creation of the
  output writer) and the steps after it (from \<open>_read_tracks\<close> to the clean-up) are given by
  their outcome: the exception that leaves them, if any. Every exception ends in the
  handler of \<open>run\<close>, which logs it and calls \<open>sys.exit(1)\<close>.
\<close>

datatype phase = Initialize | ReadInput | ConstructIMF | AfterIMF

datatype exit_status = Returned | SysExit int

record run_env =
  env_initialize :: "fault option"
  env_read_input :: "fault + ModelParameters"
  env_after_imf :: "IMF \<Rightarrow> fault option"

definition run :: "run_env \<Rightarrow> phase list \<times> exit_status" where
  "run env =
     (case env_initialize env of
        Some e \<Rightarrow> ([Initialize], SysExit 1)
      | None \<Rightarrow>
         (case env_read_input env of
            Inl e \<Rightarrow> ([Initialize, ReadInput], SysExit 1)
          | Inr params \<Rightarrow>
             (case IMF_init (num_intervals params) (ModelParameters.exponents params)
                            (ModelParameters.mass_limits params) of
                Inl e \<Rightarrow> ([Initialize, ReadInput, ConstructIMF], SysExit 1)
              | Inr imf \<Rightarrow>
                 (case env_after_imf env imf of
                    Some e \<Rightarrow> ([Initialize, ReadInput, ConstructIMF, AfterIMF], SysExit 1)
                  | None \<Rightarrow> ([Initialize, ReadInput, ConstructIMF, AfterIMF], Returned)))))"

section \<open>Lemmas on the Python and numpy primitives\<close>

lemma py_index_nth: "i < length xs \<Longrightarrow> py_index xs (int i) = Inr (xs ! i)"
  by (simp add: py_index_def)

lemma py_index_first: "xs \<noteq> [] \<Longrightarrow> py_index xs 0 = Inr (hd xs)"
  by (cases xs) (simp_all add: py_index_def)

lemma py_index_last: "xs \<noteq> [] \<Longrightarrow> py_index xs (-1) = Inr (last xs)"
proof -
  assume ne: "xs \<noteq> []"
  then have l: "1 \<le> int (length xs)" by (cases xs) simp_all
  have "nat (int (length xs) + - 1) = length xs - 1" by simp
  with ne l show ?thesis by (simp add: py_index_def last_conv_nth)
qed


lemma searchsorted_eq:
  assumes "k \<le> length xs" and "\<And>j. j < k \<Longrightarrow> xs ! j < v" and "k < length xs \<Longrightarrow> v \<le> xs ! k"
  shows "np_searchsorted xs v = k"
proof -
  have "takeWhile (\<lambda>x. x < v) xs = take k xs"
    using assms by (intro takeWhile_eq_take_P_nth) (auto simp: not_less)
  with assms(1) show ?thesis by (simp add: np_searchsorted_def)
qed

lemma strict_sorted_nth_less: "sorted_wrt (<) xs \<Longrightarrow> i < j \<Longrightarrow> j < length xs \<Longrightarrow> xs ! i < (xs ! j :: real)"
  by (simp add: sorted_wrt_iff_nth_less)

lemma strict_sorted_nth_le: "sorted_wrt (<) xs \<Longrightarrow> i \<le> j \<Longrightarrow> j < length xs \<Longrightarrow> xs ! i \<le> (xs ! j :: real)"
  by (cases "i = j") (auto simp: sorted_wrt_iff_nth_less less_imp_le)

lemma searchsorted_interior:
  assumes "sorted_wrt (<) xs" "Suc i < length xs" "xs ! i < v" "v \<le> xs ! Suc i"
  shows "np_searchsorted xs v = Suc i"
proof (rule searchsorted_eq)
  show "Suc i \<le> length xs" using assms by simp
  show "xs ! j < v" if "j < Suc i" for j
    using strict_sorted_nth_le [OF assms(1), of j i] that assms by force
  show "v \<le> xs ! Suc i" using assms by simp
qed

lemma searchsorted_first: "xs \<noteq> [] \<Longrightarrow> v \<le> hd xs \<Longrightarrow> np_searchsorted xs v = 0"
  by (cases xs) (simp_all add: np_searchsorted_def)

lemma np_diff_positive_iff: "list_all (\<lambda>d. d > 0) (np_diff ml) \<longleftrightarrow> sorted_wrt (<) ml"
proof (induction ml rule: np_diff.induct)
  case (1 x y ys)
  have "sorted_wrt (<) (x # y # ys) \<longleftrightarrow> x < y \<and> sorted_wrt (<) (y # ys)"
    by (auto dest: order_less_trans)
  with 1 show ?case by simp
qed simp_all

lemma wrap64_id: "- (2 ^ 63) \<le> z \<Longrightarrow> z < 2 ^ 63 \<Longrightarrow> wrap64 z = z"
  by (simp add: wrap64_def)



lemma length_np_array: "length (np_array xs) = length xs"
  by (simp add: np_array_def)



lemma validate_parameters_fault: "validate_parameters n ex dm ml = Inl e \<Longrightarrow> e = ValueError"
  by (simp add: validate_parameters_def split: if_splits)

text \<open>The normalizations: only two \<open>int64\<close> arrays can raise, and what is raised is
  ValueError.\<close>

lemma normalization_float:
  "\<not> (de = int64 \<and> dm = int64) \<Longrightarrow> \<exists>v. normalization de ex dm ml i = Inr v"
  by (auto simp: normalization_def)

lemma normalization_int:
  "normalization int64 ex int64 ml i = Inl e \<longleftrightarrow>
     e = ValueError \<and> ex ! i \<noteq> -1 \<and> wrap64 (\<lfloor>ex ! i\<rfloor> + 1) < 0"
  by (auto simp: normalization_def int64_power_def Let_def)

lemma normalizations_loop_float:
  "\<not> (de = int64 \<and> dm = int64) \<Longrightarrow> \<exists>vs. normalizations_loop de ex dm ml js = Inr vs"
proof (induction js)
  case (Cons j js)
  from normalization_float [OF Cons.prems, of ex ml j]
  obtain v where "normalization de ex dm ml j = Inr v" by blast
  with Cons show ?case by auto
qed simp

lemma normalizations_loop_int:
  "(\<exists>e. normalizations_loop int64 ex int64 ml js = Inl e) \<longleftrightarrow>
     (\<exists>j \<in> set js. ex ! j \<noteq> -1 \<and> wrap64 (\<lfloor>ex ! j\<rfloor> + 1) < 0)"
proof (induction js)
  case (Cons j js)
  show ?case
  proof (cases "normalization int64 ex int64 ml j")
    case (Inl e)
    then show ?thesis using normalization_int [of ex ml j e] by auto
  next
    case (Inr v)
    then have no: "\<not> (ex ! j \<noteq> -1 \<and> wrap64 (\<lfloor>ex ! j\<rfloor> + 1) < 0)"
      using normalization_int [of ex ml j ValueError] by auto
    show ?thesis
    proof (cases "normalizations_loop int64 ex int64 ml js")
      case l: (Inl e)
      with Inr Cons no show ?thesis by auto
    next
      case r: (Inr vs)
      with Inr Cons no show ?thesis by auto
    qed
  qed
qed simp

lemma normalizations_loop_fault:
  "normalizations_loop de ex dm ml js = Inl e \<Longrightarrow> e = ValueError"
proof (induction js)
  case (Cons j js)
  show ?case
  proof (cases "normalization de ex dm ml j")
    case (Inl e')
    with Cons.prems have e: "e' = e" by simp
    show ?thesis
    proof (cases "de = int64 \<and> dm = int64")
      case True
      with Inl e normalization_int [of ex ml j e] show ?thesis by simp
    next
      case False
      from normalization_float [OF False, of ex ml j] Inl show ?thesis by auto
    qed
  next
    case (Inr v)
    with Cons show ?thesis
      by (cases "normalizations_loop de ex dm ml js") auto
  qed
qed simp

lemma IMF_init_cases:
  "IMF_init n exl mll =
     (case validate_parameters n (np_array exl) (np_array_dtype mll) (np_array mll) of
        Inl e \<Rightarrow> Inl e
      | Inr u \<Rightarrow>
         (case normalizations_loop (np_array_dtype exl) (np_array exl) (np_array_dtype mll)
                 (np_array mll) [0..<nat n] of
            Inl e \<Rightarrow> Inl e
          | Inr norms \<Rightarrow>
              Inr \<lparr>intervals = n, exponents = np_array exl, mass_limits = np_array mll,
                   normalizations = norms,
                   exponents_dtype = np_array_dtype exl, mass_limits_dtype = np_array_dtype mll\<rparr>))"
  by (simp add: IMF_init_def calculate_normalizations_def split: sum.splits)





lemma one_over_nonzero: "nval m \<noteq> 0 \<Longrightarrow> one_over m = Inr (Some (1 / nval m))"
  by (simp add: one_over_def)



lemma floor_nval: "is_integer m \<Longrightarrow> of_int \<lfloor>nval m\<rfloor> = nval m"
  by (cases m) simp_all





text \<open>With an explicit \<open>interval\<close> argument \<open>xi\<close> skips the range test: half a solar
  mass lies below the limits of this one-segment IMF, and the value is not zero.\<close>

lemma xi_interval_given_skips_range_test:
  "xi \<lparr>intervals = 1, exponents = [235 / 100], mass_limits = [1, 100],
       normalizations = [Some ((100 powr (335 / 100) - 1) / (335 / 100))],
       exponents_dtype = float64, mass_limits_dtype = float64\<rparr>
      (FloatNum (PyFloat (1 / 2))) (Some 0)
     = Inr (Some ((1 / 2) powr (- (235 / 100))))"
  by (simp add: xi_def xi_value_def py_index_def power_neg_def np_power_def)

section \<open>Lemmas on \<open>integrate\<close>\<close>








lemma integrate_raises_at_zero_limit:
  "integrate \<lparr>intervals = 1, exponents = [1], mass_limits = [0, 1],
              normalizations = [Some (1 / 2)],
              exponents_dtype = float64, mass_limits_dtype = float64\<rparr> (PyFloat 0) (PyFloat 1) = Inl ZeroDivisionError"
  by (simp add: integrate_def integrate_step_def
      integrate_term_def py_index_def py_max_def py_min_def py_truediv_def np_log_def)
















section \<open>Lemmas on \<open>sample\<close>\<close>

lemma sample_seeded_ignores_state:
  "sample rng imf n_stars (Some s) g = sample rng imf n_stars (Some s) g'"
  by (simp add: sample_def)

lemma sample_loop_length:
  "sample_loop rng imf probs k g = Inr (masses, g') \<Longrightarrow> length masses = k"
proof (induction k arbitrary: g masses g')
  case 0
  then show ?case by simp
next
  case (Suc k)
  from Suc.prems obtain interval g1 where
    c: "np_random_choice rng (intervals imf) probs g = Inr (interval, g1)"
    by (cases "np_random_choice rng (intervals imf) probs g") auto
  obtain u g2 where u: "random_sample rng g1 = (u, g2)" by (cases "random_sample rng g1")
  from Suc.prems c u obtain rest g3 where
    r: "sample_loop rng imf probs k g2 = Inr (rest, g3)" and m: "length masses = Suc (length rest)"
    by (cases "py_index (mass_limits imf) (int interval)";
        cases "py_index (mass_limits imf) (int interval + 1)";
        cases "py_index (exponents imf) (int interval)";
        cases "sample_loop rng imf probs k g2") auto
  from Suc.IH [OF r] m show ?case by simp
qed

lemma sample_length:
  "sample rng imf n_stars seed g = Inr (masses, g') \<Longrightarrow> length masses = nat n_stars"
  by (cases "interval_integrals imf [0..<nat (intervals imf)]")
     (auto simp: sample_def Let_def dest: sample_loop_length)

lemma sample_zero: "\<exists>ps. interval_integrals imf [0..<nat (intervals imf)] = Inr ps \<Longrightarrow>
    sample rng imf 0 seed g = Inr ([], case seed of None \<Rightarrow> g | Some s \<Rightarrow> seed_state rng s)"
  by (auto simp: sample_def)

text \<open>The mass drawn in a segment with positive limits lies in the segment, unless the
  exponent is 1.\<close>

lemma powr_inverse_exponent:
  assumes "0 < (x::real)" "e \<noteq> 0"
  shows "(x powr e) powr (1 / e) = x"
  using assms by (simp add: powr_powr)

lemma draw_mass_in_segment:
  assumes "0 < m_low" "m_low < m_high" "0 \<le> u" "u < 1" "alpha \<noteq> 1"
  shows "\<exists>v. draw_mass u m_low m_high alpha = Some v \<and> m_low \<le> v \<and> v \<le> m_high"
proof (cases "alpha = -1")
  case True
  let ?r = "m_high / m_low"
  have r: "1 < ?r" using assms by simp
  have b1: "1 \<le> ?r powr u" using r assms(3) by (simp add: ge_one_powr_ge_zero)
  have "?r powr u \<le> ?r powr 1" using r assms(4) by (intro powr_mono) simp_all
  moreover have "?r powr 1 = ?r" using r by (intro powr_one) simp
  ultimately have b2: "?r powr u \<le> ?r" by simp
  note b = b1 b2
  have "m_low * 1 \<le> m_low * ?r powr u" using b(1) assms(1) by (intro mult_left_mono) simp_all
  moreover have "m_low * ?r powr u \<le> m_low * ?r" using b(2) assms(1) by (intro mult_left_mono) simp_all
  moreover have "draw_mass u m_low m_high alpha = Some (m_low * ?r powr u)"
    using True assms r by (simp add: draw_mass_def np_divide_def np_power_def)
  ultimately show ?thesis using assms(1) by simp
next
  case False
  define e where "e = - alpha + 1"
  have e: "e \<noteq> 0" using assms(5) by (simp add: e_def)
  define A where "A = m_low powr e"
  define B where "B = m_high powr e"
  define base where "base = u * (B - A) + A"
  have hpos: "0 < m_high" using assms by simp
  have AB: "0 < A" "0 < B" using assms hpos by (simp_all add: A_def B_def)
  have conv: "base = (1 - u) * A + u * B" by (simp add: base_def algebra_simps)
  have bpos: "0 < base"
  proof -
    have "0 < (1 - u) * A" using assms AB by simp
    moreover have "0 \<le> u * B" using assms AB by simp
    ultimately show ?thesis unfolding conv by linarith
  qed
  have pl: "np_power m_low (- alpha + 1) = Some A"
    using assms(1) by (simp add: np_power_def A_def e_def)
  have ph: "np_power m_high (- alpha + 1) = Some B"
    using hpos by (simp add: np_power_def B_def e_def)
  have pb: "np_power base (1 / e) = Some (base powr (1 / e))"
    using bpos by (simp add: np_power_def)
  have "draw_mass u m_low m_high alpha = np_power_of (Some base) (1 / e)"
    unfolding draw_mass_def pl ph using False e by (simp add: e_def base_def)
  then have dm: "draw_mass u m_low m_high alpha = Some (base powr (1 / e))"
    using pb by simp
  have inv: "A powr (1 / e) = m_low" "B powr (1 / e) = m_high"
    using assms hpos e by (simp_all add: A_def B_def powr_inverse_exponent)
  show ?thesis
  proof (cases "0 < e")
    case True
    have "A < B" unfolding A_def B_def using assms True by (intro powr_less_mono2) simp_all
    then have "A \<le> base" "base \<le> B"
    proof -
      assume ab: "A < B"
      have "0 \<le> u * (B - A)" using ab assms by simp
      then show "A \<le> base" by (simp add: base_def)
      have "u * B \<le> 1 * B" using AB assms by (intro mult_right_mono) simp_all
      moreover have "(1 - u) * A \<le> (1 - u) * B" using ab assms by (intro mult_left_mono) simp_all
      ultimately show "base \<le> B" unfolding conv by (simp add: algebra_simps)
    qed
    then have "A powr (1 / e) \<le> base powr (1 / e)" "base powr (1 / e) \<le> B powr (1 / e)"
      using True AB bpos by (simp_all add: powr_mono2)
    with dm inv show ?thesis by simp
  next
    case f: False
    with e have neg: "e < 0" by simp
    have "B < A" unfolding A_def B_def using assms neg by (intro powr_less_mono2_neg) simp_all
    then have "B \<le> base" "base \<le> A"
    proof -
      assume ba: "B < A"
      have "u * (B - A) \<le> 0" using ba assms by (simp add: mult_nonneg_nonpos)
      then show "base \<le> A" by (simp add: base_def)
      have "(1 - u) * B \<le> (1 - u) * A" using ba assms by (intro mult_left_mono) simp_all
      then show "B \<le> base" unfolding conv by (simp add: algebra_simps)
    qed
    then have "A powr (1 / e) \<le> base powr (1 / e)" "base powr (1 / e) \<le> B powr (1 / e)"
      using neg AB bpos by (simp_all add: powr_mono2')
    with dm inv show ?thesis by simp
  qed
qed

section \<open>Lemmas on the track interpolation\<close>

lemma np_interp_total:
  "xp \<noteq> [] \<Longrightarrow> length fp = length xp \<Longrightarrow> \<exists>v. np_interp x xp fp = Inr v"
  by (simp add: np_interp_def)

lemma np_interp_below:
  "xp \<noteq> [] \<Longrightarrow> length fp = length xp \<Longrightarrow> x < hd xp \<Longrightarrow> np_interp x xp fp = Inr (hd fp)"
  by (simp add: np_interp_def)

lemma sorted_hd_le_last: "sorted_wrt (<) xp \<Longrightarrow> xp \<noteq> [] \<Longrightarrow> hd xp \<le> (last xp :: real)"
  using strict_sorted_nth_le [of xp 0 "length xp - 1"]
  by (simp add: hd_conv_nth last_conv_nth)

lemma np_interp_above:
  "xp \<noteq> [] \<Longrightarrow> length fp = length xp \<Longrightarrow> sorted_wrt (<) xp \<Longrightarrow> last xp < x \<Longrightarrow>
   np_interp x xp fp = Inr (last fp)"
  using sorted_hd_le_last [of xp] by (simp add: np_interp_def)

lemma interp_scan_node:
  "sorted_wrt (<) xp \<Longrightarrow> length fp = length xp \<Longrightarrow> k < length xp \<Longrightarrow>
   interp_scan (xp ! k) xp fp = fp ! k"
proof (induction "xp ! k" xp fp arbitrary: k rule: interp_scan.induct)
  case (1 x0 x1 xs y0 y1 ys)
  show ?case
  proof (cases k)
    case 0
    with 1 show ?thesis by simp
  next
    case (Suc k')
    have "x1 \<le> (x0 # x1 # xs) ! k"
      using strict_sorted_nth_le [of "x1 # xs" 0 k'] 1(2,4) Suc by simp
    with 1 Suc show ?thesis by simp
  qed
next
  case (2 x0 y0 ys)
  then show ?case by simp
qed simp_all

lemma np_interp_node:
  assumes "sorted_wrt (<) xp" "length fp = length xp" "k < length xp"
  shows "np_interp (xp ! k) xp fp = Inr (fp ! k)"
proof -
  have ne: "xp \<noteq> []" using assms(3) by auto
  have "hd xp \<le> xp ! k"
    using strict_sorted_nth_le [OF assms(1), of 0 k] assms(3) ne by (simp add: hd_conv_nth)
  moreover have "xp ! k \<le> last xp"
    using strict_sorted_nth_le [OF assms(1), of k "length xp - 1"] assms(3) ne
    by (simp add: last_conv_nth)
  ultimately show ?thesis
    using ne assms by (simp add: np_interp_def interp_scan_node)
qed

lemma searchsorted_node:
  assumes "sorted_wrt (<) xs" "k < length xs"
  shows "np_searchsorted xs (xs ! k) = k"
proof (rule searchsorted_eq)
  show "k \<le> length xs" using assms by simp
  show "xs ! j < xs ! k" if "j < k" for j
    using strict_sorted_nth_less [OF assms(1) that assms(2)] .
  show "xs ! k \<le> xs ! k" by simp
qed

lemma type_at_node:
  assumes "wf_track tr" "k < length (time tr)"
  shows "type_at tr (time tr ! k) = Inr (stellar_type tr ! k)"
  using assms
  by (simp add: type_at_def wf_track_def searchsorted_node np_clip_def py_index_def)

lemma interpolate_single_node:
  assumes "wf_track tr" "k < length (time tr)"
  shows "interpolate_single (time tr ! k) tr =
           Inr \<lparr>props_luminosity = luminosity tr ! k, props_temperature = temperature tr ! k,
                props_radius = radius tr ! k, props_mass_loss_rate = mass_loss_rate tr ! k,
                props_stellar_type = stellar_type tr ! k\<rparr>"
  using assms type_at_node [OF assms]
  by (simp add: interpolate_single_def wf_track_def np_interp_node)

lemma blend_node:
  assumes "wf_track track1" "wf_track tr" "k < length (time tr)"
    and "length (key track1) = length (time track1)" "length (key tr) = length (time tr)"
  shows "blend 0 1 (time tr ! k) track1 tr key = Inr (key tr ! k)"
proof -
  from np_interp_total [of "time track1" "key track1" "time tr ! k"] assms(1,4)
  obtain v where "np_interp (time tr ! k) (time track1) (key track1) = Inr v"
    by (auto simp: wf_track_def)
  moreover have "np_interp (time tr ! k) (time tr) (key tr) = Inr (key tr ! k)"
    using assms by (intro np_interp_node) (simp_all add: wf_track_def)
  ultimately show ?thesis by (simp add: blend_def)
qed

lemma interpolate_between_node:
  assumes "wf_track track1" "wf_track tr" "k < length (time tr)"
  shows "interpolate_between 0 1 (time tr ! k) track1 tr =
           Inr \<lparr>props_luminosity = luminosity tr ! k, props_temperature = temperature tr ! k,
                props_radius = radius tr ! k, props_mass_loss_rate = mass_loss_rate tr ! k,
                props_stellar_type = stellar_type tr ! k\<rparr>"
proof -
  have "blend 0 1 (time tr ! k) track1 tr luminosity = Inr (luminosity tr ! k)"
       "blend 0 1 (time tr ! k) track1 tr temperature = Inr (temperature tr ! k)"
       "blend 0 1 (time tr ! k) track1 tr radius = Inr (radius tr ! k)"
       "blend 0 1 (time tr ! k) track1 tr mass_loss_rate = Inr (mass_loss_rate tr ! k)"
    using assms by (auto intro!: blend_node simp: wf_track_def)
  then show ?thesis
    using type_at_node [OF assms(2,3)] by (simp add: interpolate_between_def)
qed

text \<open>The sorted keys of a dictionary.\<close>

lemma sorted_keys:
  assumes "distinct (map fst tbl)"
  shows "sorted_wrt (<) (sort (map fst tbl))" "set (sort (map fst tbl)) = fst ` set tbl"
    "length (sort (map fst tbl)) = length tbl"
  using assms by (simp_all add: strict_sorted_iff)

lemma dict_get_key:
  "distinct (map fst tbl) \<Longrightarrow> (m, tr) \<in> set tbl \<Longrightarrow> dict_get tbl m = Inr tr"
  by (simp add: dict_get_def)

lemma interpolate_in_table_tabulated_mass:
  assumes d: "distinct (map fst tbl)" and wf: "\<forall>(m', tr') \<in> set tbl. wf_track tr'"
    and mem: "(m, tr) \<in> set tbl"
    and single: "interpolate_single t tr = Inr p"
    and between: "\<And>track1. wf_track track1 \<Longrightarrow> interpolate_between 0 1 t track1 tr = Inr p"
  shows "interpolate_in_table tbl m t = Inr p"
proof -
  let ?ms = "sort (map fst tbl)"
  note S = sorted_keys [OF d]
  have get: "dict_get tbl m = Inr tr" using d mem by (rule dict_get_key)
  from mem have "m \<in> set ?ms" by (force simp: S(2))
  then obtain j where j: "j < length ?ms" "?ms ! j = m" unfolding in_set_conv_nth by blast
  have ne: "?ms \<noteq> []" using j(1) by (metis list.size(3) not_less_zero)
  have first: "py_index ?ms 0 = Inr (?ms ! 0)" using ne by (simp add: py_index_first hd_conv_nth)
  have last: "py_index ?ms (-1) = Inr (?ms ! (length ?ms - 1))"
    using ne by (simp add: py_index_last last_conv_nth)
  consider "j = 0" | "0 < j" "j = length ?ms - 1" | "0 < j" "j < length ?ms - 1" using j(1) by linarith
  then show ?thesis
  proof cases
    case 1
    with j have "m = ?ms ! 0" by simp
    then show ?thesis
      using first get single by (simp add: interpolate_in_table_def Let_def)
  next
    case 2
    have "?ms ! 0 < m" using strict_sorted_nth_less [OF S(1), of 0 j] 2 j by simp
    moreover have "m = ?ms ! (length ?ms - 1)" using 2 j by simp
    ultimately show ?thesis
      using first last get single by (simp add: interpolate_in_table_def Let_def)
  next
    case 3
    have lo: "?ms ! 0 < m" using strict_sorted_nth_less [OF S(1), of 0 j] 3 j by simp
    have hi: "m < ?ms ! (length ?ms - 1)"
      using strict_sorted_nth_less [OF S(1), of j "length ?ms - 1"] 3 j by simp
    have idx: "np_searchsorted ?ms m = j" using searchsorted_node [OF S(1) j(1)] j(2) by simp
    have m1: "py_index ?ms (int j - 1) = Inr (?ms ! (j - 1))"
      using py_index_nth [of "j - 1" ?ms] 3 j(1) by simp
    have m2: "py_index ?ms (int j) = Inr m" using py_index_nth [OF j(1)] j(2) by simp
    have "?ms ! (j - 1) \<in> set ?ms" using j(1) by (intro nth_mem) simp
    then obtain track1 where t1: "(?ms ! (j - 1), track1) \<in> set tbl" by (force simp: S(2))
    then have get1: "dict_get tbl (?ms ! (j - 1)) = Inr track1" using d by (intro dict_get_key)
    have w1: "wf_track track1" using wf t1 by auto
    have lt: "?ms ! (j - 1) < m" using strict_sorted_nth_less [OF S(1), of "j - 1" j] 3 j by simp
    then have ws: "float_truediv (m - m) (m - ?ms ! (j - 1)) = Inr 0"
      "float_truediv (m - ?ms ! (j - 1)) (m - ?ms ! (j - 1)) = Inr 1"
      by (simp_all add: float_truediv_def)
    show ?thesis
      using lo hi first last idx m1 m2 get get1 ws between [OF w1]
      by (simp add: interpolate_in_table_def Let_def)
  qed
qed

lemma interpolate_in_table_node:
  assumes d: "distinct (map fst tbl)" and wf: "\<forall>(m', tr') \<in> set tbl. wf_track tr'"
    and mem: "(m, tr) \<in> set tbl" and k: "k < length (time tr)"
  shows "interpolate_in_table tbl m (time tr ! k) =
           Inr \<lparr>props_luminosity = luminosity tr ! k, props_temperature = temperature tr ! k,
                props_radius = radius tr ! k, props_mass_loss_rate = mass_loss_rate tr ! k,
                props_stellar_type = stellar_type tr ! k\<rparr>"
proof -
  have wtr: "wf_track tr" using wf mem by auto
  show ?thesis
    using d wf mem interpolate_single_node [OF wtr k]
  proof (rule interpolate_in_table_tabulated_mass)
    show "interpolate_between 0 1 (time tr ! k) track1 tr =
           Inr \<lparr>props_luminosity = luminosity tr ! k, props_temperature = temperature tr ! k,
                props_radius = radius tr ! k, props_mass_loss_rate = mass_loss_rate tr ! k,
                props_stellar_type = stellar_type tr ! k\<rparr>" if "wf_track track1" for track1
      by (rule interpolate_between_node [OF that wtr k])
  qed
qed

lemma log_interp_between:
  assumes "0 < m1" "m1 < m" "m < m2" "0 < life1" "0 < life2"
  shows "log_interp m m1 m2 life1 life2 =
           Inr (Some (10 powr ((log 10 life2 - log 10 life1) / (log 10 m2 - log 10 m1)
                                 * (log 10 m - log 10 m1) + log 10 life1)))"
proof -
  have "log 10 m1 < log 10 m" "log 10 m < log 10 m2"
    using assms by simp_all
  then show ?thesis
    using assms by (simp add: log_interp_def np_log10_def np_interp_def np_power_def)
qed

lemma final_age_last: "time tr \<noteq> [] \<Longrightarrow> final_age tr = Inr (last (time tr))"
  by (simp add: final_age_def py_index_last)

lemma lifetime_in_table_between:
  assumes "Suc i < length tbl"
    and "sort (map fst tbl) ! i = m1" "sort (map fst tbl) ! Suc i = m2"
    and "0 < m1" "m1 < m" "m < m2"
    and "map_of tbl m1 = Some track1" "map_of tbl m2 = Some track2"
    and "time track1 \<noteq> []" "time track2 \<noteq> []"
    and "0 < last (time track1)" "0 < last (time track2)"
  shows "lifetime_in_table tbl m =
           Inr (Some (10 powr ((log 10 (last (time track2)) - log 10 (last (time track1)))
                                 / (log 10 m2 - log 10 m1) * (log 10 m - log 10 m1)
                               + log 10 (last (time track1)))))"
proof -
  let ?ms = "sort (map fst tbl)"
  have len: "length ?ms = length tbl" by simp
  have srt: "sorted ?ms" by simp
  have ne: "?ms \<noteq> []" using assms(1) len by (metis list.size(3) not_less_zero)
  have first: "py_index ?ms 0 = Inr (?ms ! 0)" using ne by (simp add: py_index_first hd_conv_nth)
  have last: "py_index ?ms (-1) = Inr (?ms ! (length tbl - 1))"
    using ne by (simp add: py_index_last last_conv_nth)
  have lo: "?ms ! 0 < m"
    using sorted_nth_mono [OF srt, of 0 i] assms(1,2,5) len by simp
  have "?ms ! Suc i \<le> ?ms ! (length tbl - 1)"
    by (rule sorted_nth_mono [OF srt]) (use assms(1) len in auto)
  then have hi: "m < ?ms ! (length tbl - 1)"
    using assms(3,6) by simp
  have idx: "np_searchsorted ?ms m = Suc i"
  proof (rule searchsorted_eq)
    show "Suc i \<le> length ?ms" using assms(1) len by simp
    show "?ms ! j < m" if "j < Suc i" for j
      using sorted_nth_mono [OF srt, of j i] that assms(1,2,5) len by simp
    show "m \<le> ?ms ! Suc i" using assms(3,6) by simp
  qed
  have i1: "py_index ?ms (int (Suc i) - 1) = Inr m1"
    using py_index_nth [of i ?ms] assms(1,2) len by simp
  have i2: "py_index ?ms (int (Suc i)) = Inr m2"
    using py_index_nth [of "Suc i" ?ms] assms(1,3) len by simp
  have g: "dict_get tbl m1 = Inr track1" "dict_get tbl m2 = Inr track2"
    using assms(7,8) by (simp_all add: dict_get_def)
  show ?thesis
    using lo hi first last idx i1 i2 g assms(9,10)
      log_interp_between [OF assms(4,5,6,11,12)]
    by (simp add: lifetime_in_table_def Let_def final_age_last)
qed


lemma log10_pow: "log 10 ((10::real) ^ n) = real n"
  by (simp add: log_nat_power)

lemma geometric_mean_value: "(10::real) powr (15 / 2) = sqrt (10 ^ 8 * 10 ^ 7)"
proof -
  have "(10::real) powr (15 / 2) = (10 powr 15) powr (1 / 2)"
    unfolding powr_powr by simp
  also have "(10::real) powr 15 = 10 ^ 8 * 10 ^ 7" by simp
  finally show ?thesis by (simp add: powr_half_sqrt)
qed

text \<open>Ages outside the tabulated range.\<close>

lemma searchsorted_above:
  assumes "sorted_wrt (<) xs" "xs \<noteq> []" "last xs < v"
  shows "np_searchsorted xs v = length xs"
proof (rule searchsorted_eq)
  show "xs ! j < v" if "j < length xs" for j
  proof -
    have "j \<le> length xs - 1" "length xs - 1 < length xs" using that by simp_all
    from strict_sorted_nth_le [OF assms(1) this] assms(2,3) show ?thesis
      by (simp add: last_conv_nth)
  qed
qed simp_all

lemma type_at_below:
  assumes "wf_track tr" "t < hd (time tr)"
  shows "type_at tr t = Inr (stellar_type tr ! 0)"
  using assms
  by (simp add: type_at_def wf_track_def searchsorted_first np_clip_def py_index_def)

lemma type_at_above:
  assumes "wf_track tr" "last (time tr) < t"
  shows "type_at tr t = Inr (stellar_type tr ! (length (time tr) - 1))"
proof -
  have n: "0 < length (time tr)" using assms(1) by (simp add: wf_track_def)
  have "np_searchsorted (time tr) t = length (time tr)"
    using assms by (intro searchsorted_above) (simp_all add: wf_track_def)
  moreover have "nat (int (length (time tr)) - 1) = length (time tr) - 1" by simp
  ultimately show ?thesis
    using assms(1) n by (simp add: type_at_def wf_track_def np_clip_def py_index_def)
qed

lemma np_interp_below_nth:
  assumes "wf_track tr" "length fp = length (time tr)" "t < hd (time tr)"
  shows "np_interp t (time tr) fp = Inr (fp ! 0)"
proof -
  have "fp \<noteq> []" using assms(1,2) by (auto simp: wf_track_def)
  then show ?thesis
    using assms by (simp add: np_interp_below wf_track_def hd_conv_nth)
qed

lemma np_interp_above_nth:
  assumes "wf_track tr" "length fp = length (time tr)" "last (time tr) < t"
  shows "np_interp t (time tr) fp = Inr (fp ! (length (time tr) - 1))"
proof -
  have "fp \<noteq> []" using assms(1,2) by (auto simp: wf_track_def)
  then show ?thesis
    using assms by (simp add: np_interp_above wf_track_def last_conv_nth)
qed

lemma interpolate_single_below:
  assumes "wf_track tr" "t < hd (time tr)"
  shows "interpolate_single t tr = Inr (point_props tr 0)"
  using assms type_at_below [OF assms]
  by (simp add: interpolate_single_def point_props_def np_interp_below_nth wf_track_def)

lemma interpolate_single_above:
  assumes "wf_track tr" "last (time tr) < t"
  shows "interpolate_single t tr = Inr (point_props tr (length (time tr) - 1))"
  using assms type_at_above [OF assms]
  by (simp add: interpolate_single_def point_props_def np_interp_above_nth wf_track_def)

lemma blend_tabulated:
  assumes "wf_track track1" "length (key track1) = length (time track1)"
    and "np_interp t (time tr) (key tr) = Inr v"
  shows "blend 0 1 t track1 tr key = Inr v"
proof -
  from np_interp_total [of "time track1" "key track1" t] assms(1,2)
  obtain v1 where "np_interp t (time track1) (key track1) = Inr v1"
    by (auto simp: wf_track_def)
  with assms(3) show ?thesis by (simp add: blend_def)
qed

lemma interpolate_between_below:
  assumes "wf_track track1" "wf_track tr" "t < hd (time tr)"
  shows "interpolate_between 0 1 t track1 tr = Inr (point_props tr 0)"
proof -
  have b: "blend 0 1 t track1 tr key = Inr (key tr ! 0)"
    if "length (key track1) = length (time track1)" "length (key tr) = length (time tr)" for key
    using blend_tabulated [where key = key, OF assms(1) that(1)]
      np_interp_below_nth [OF assms(2) that(2) assms(3)] by simp
  from assms(1,2) have l:
    "length (luminosity track1) = length (time track1)" "length (luminosity tr) = length (time tr)"
    "length (temperature track1) = length (time track1)" "length (temperature tr) = length (time tr)"
    "length (radius track1) = length (time track1)" "length (radius tr) = length (time tr)"
    "length (mass_loss_rate track1) = length (time track1)"
    "length (mass_loss_rate tr) = length (time tr)"
    by (simp_all add: wf_track_def)
  note b [of luminosity, OF l(1,2)] b [of temperature, OF l(3,4)] b [of radius, OF l(5,6)]
    b [of mass_loss_rate, OF l(7,8)]
  then show ?thesis
    using type_at_below [OF assms(2,3)] by (simp add: interpolate_between_def point_props_def)
qed

lemma interpolate_between_above:
  assumes "wf_track track1" "wf_track tr" "last (time tr) < t"
  shows "interpolate_between 0 1 t track1 tr = Inr (point_props tr (length (time tr) - 1))"
proof -
  let ?n = "length (time tr) - 1"
  have b: "blend 0 1 t track1 tr key = Inr (key tr ! ?n)"
    if "length (key track1) = length (time track1)" "length (key tr) = length (time tr)" for key
    using blend_tabulated [where key = key, OF assms(1) that(1)]
      np_interp_above_nth [OF assms(2) that(2) assms(3)] by simp
  from assms(1,2) have l:
    "length (luminosity track1) = length (time track1)" "length (luminosity tr) = length (time tr)"
    "length (temperature track1) = length (time track1)" "length (temperature tr) = length (time tr)"
    "length (radius track1) = length (time track1)" "length (radius tr) = length (time tr)"
    "length (mass_loss_rate track1) = length (time track1)"
    "length (mass_loss_rate tr) = length (time tr)"
    by (simp_all add: wf_track_def)
  note b [of luminosity, OF l(1,2)] b [of temperature, OF l(3,4)] b [of radius, OF l(5,6)]
    b [of mass_loss_rate, OF l(7,8)]
  then show ?thesis
    using type_at_above [OF assms(2,3)] by (simp add: interpolate_between_def point_props_def)
qed

lemma blend_below:
  assumes "wf_track track1" "wf_track track2"
    and "length (key track1) = length (time track1)" "length (key track2) = length (time track2)"
    and "t < hd (time track1)" "t < hd (time track2)"
  shows "blend w1 w2 t track1 track2 key = Inr (w1 * key track1 ! 0 + w2 * key track2 ! 0)"
  using assms by (simp add: blend_def np_interp_below_nth)

lemma blend_above:
  assumes "wf_track track1" "wf_track track2"
    and "length (key track1) = length (time track1)" "length (key track2) = length (time track2)"
    and "last (time track1) < t" "last (time track2) < t"
  shows "blend w1 w2 t track1 track2 key =
           Inr (w1 * key track1 ! (length (time track1) - 1) + w2 * key track2 ! (length (time track2) - 1))"
  using assms by (simp add: blend_def np_interp_above_nth)

text \<open>\<open>interpolate_in_time\<close> between the points \<open>k\<close> and \<open>k + 1\<close>.\<close>

lemma index2_nth:
  "i < length arr \<Longrightarrow> k < length (arr ! i) \<Longrightarrow> index2 arr (int i) (int k) = Inr (arr ! i ! k)"
  by (simp add: index2_def py_index_nth)

lemma interpolate_attrs_lines:
  assumes "\<forall>(attr, get) \<in> set attrs. \<forall>arr. get td = Some arr \<longrightarrow>
             i < length arr \<and> Suc k < length (arr ! i)"
  shows "interpolate_attrs td (int i) (int (Suc k)) ((t - xs ! k) / (xs ! Suc k - xs ! k)) attrs =
           Inr (concat (map (\<lambda>(attr, get). case get td of
                                   None \<Rightarrow> []
                                 | Some arr \<Rightarrow> [(attr, line_through xs (arr ! i) k t)])
                            attrs))"
  using assms
proof (induction attrs)
  case Nil
  then show ?case by simp
next
  case (Cons a attrs)
  obtain attr get where a: "a = (attr, get)" by (cases a)
  show ?case
  proof (cases "get td")
    case None
    with Cons a show ?thesis by simp
  next
    case (Some arr)
    with Cons.prems a have s: "i < length arr" "Suc k < length (arr ! i)" by auto
    have "index2 arr (int i) (int (Suc k) - 1) = Inr (arr ! i ! k)"
      using index2_nth [of i arr k] s by simp
    moreover have "index2 arr (int i) (int (Suc k)) = Inr (arr ! i ! Suc k)"
      using index2_nth [of i arr "Suc k"] s by simp
    ultimately show ?thesis using Cons a Some by (simp add: line_through_def)
  qed
qed

lemma interpolate_in_time_lines:
  assumes wf: "wf_TrackData td" and a: "age td = Some age_arr" and i: "i < length age_arr"
    and k: "int (Suc k) < num_points td"
    and idx: "(let found = int (np_searchsorted (age_arr ! i) t)
               in if found = 0 then 1 else if found \<ge> num_points td then num_points td - 1 else found)
              = int (Suc k)"
    and lt: "age_arr ! i ! k < age_arr ! i ! Suc k"
  shows "interpolate_in_time td (int i) t = Inr (lines_through td i k t)"
proof -
  have shape: "int (length arr) = num_masses td \<and> (\<forall>row \<in> set arr. int (length row) = num_points td)"
    if "age td = Some arr \<or> (\<exists>(attr, get) \<in> set interpolated_attrs. get td = Some arr)" for arr
    using wf that unfolding wf_TrackData_def by blast
  have nm: "int (length age_arr) = num_masses td" using shape [of age_arr] a by simp
  have row: "int (length (age_arr ! i)) = num_points td"
    using shape [of age_arr] a i by simp
  have r1: "py_index age_arr (int i) = Inr (age_arr ! i)" using i by (simp add: py_index_nth)
  have t0: "py_index (age_arr ! i) (int (Suc k) - 1) = Inr (age_arr ! i ! k)"
    using py_index_nth [of k "age_arr ! i"] row k by simp
  have t1: "py_index (age_arr ! i) (int (Suc k)) = Inr (age_arr ! i ! Suc k)"
    using py_index_nth [of "Suc k" "age_arr ! i"] row k by simp
  have attrs: "\<forall>(attr, get) \<in> set interpolated_attrs. \<forall>arr. get td = Some arr \<longrightarrow>
             i < length arr \<and> Suc k < length (arr ! i)"
  proof (clarify)
    fix attr get arr
    assume m: "(attr, get) \<in> set interpolated_attrs" and g: "get td = Some arr"
    then have s: "int (length arr) = num_masses td" "\<forall>row \<in> set arr. int (length row) = num_points td"
      using shape [of arr] by blast+
    from s(1) nm i have il: "i < length arr" by simp
    with s(2) have "int (length (arr ! i)) = num_points td" by simp
    with k il show "i < length arr \<and> Suc k < length (arr ! i)" by simp
  qed
  have "interpolate_in_time td (int i) t =
          interpolate_attrs td (int i) (int (Suc k))
            ((t - age_arr ! i ! k) / (age_arr ! i ! Suc k - age_arr ! i ! k)) interpolated_attrs"
    using a i nm r1 t0 t1 lt idx
    by (simp add: interpolate_in_time_def Let_def del: of_nat_Suc)
  also have "\<dots> = Inr (lines_through td i k t)"
    unfolding lines_through_def a option.sel by (rule interpolate_attrs_lines [OF attrs])
  finally show ?thesis .
qed

lemma interpolate_in_time_above:
  assumes "wf_TrackData td" "age td = Some age_arr" "i < length age_arr"
    and "sorted_wrt (<) (age_arr ! i)" "2 \<le> num_points td" "last (age_arr ! i) < t"
  shows "interpolate_in_time td (int i) t = Inr (lines_through td i (nat (num_points td) - 2) t)"
proof -
  let ?row = "age_arr ! i" and ?k = "nat (num_points td) - 2"
  have row: "int (length ?row) = num_points td"
    using assms(1,2,3) unfolding wf_TrackData_def by (metis nth_mem)
  then have ne: "?row \<noteq> []" using assms(5) by auto
  have sk: "int (Suc ?k) = num_points td - 1" using assms(5) by simp
  have found: "np_searchsorted ?row t = length ?row"
    using assms(4,6) ne by (intro searchsorted_above)
  show ?thesis
  proof (rule interpolate_in_time_lines [OF assms(1-3)])
    show "int (Suc ?k) < num_points td" using sk by simp
    show "(let found = int (np_searchsorted ?row t)
           in if found = 0 then 1 else if found \<ge> num_points td then num_points td - 1 else found)
          = int (Suc ?k)"
      using found row assms(5) sk by (simp add: Let_def)
    show "?row ! ?k < ?row ! Suc ?k"
      using strict_sorted_nth_less [OF assms(4), of ?k "Suc ?k"] row assms(5) by simp
  qed
qed

lemma interpolate_in_time_below:
  assumes "wf_TrackData td" "age td = Some age_arr" "i < length age_arr"
    and "sorted_wrt (<) (age_arr ! i)" "2 \<le> num_points td" "t \<le> hd (age_arr ! i)"
  shows "interpolate_in_time td (int i) t = Inr (lines_through td i 0 t)"
proof -
  let ?row = "age_arr ! i"
  have row: "int (length ?row) = num_points td"
    using assms(1,2,3) unfolding wf_TrackData_def by (metis nth_mem)
  then have ne: "?row \<noteq> []" using assms(5) by auto
  have found: "np_searchsorted ?row t = 0"
    using assms(6) ne by (intro searchsorted_first)
  show ?thesis
  proof (rule interpolate_in_time_lines [OF assms(1-3)])
    show "int (Suc 0) < num_points td" using assms(5) by simp
    show "(let found = int (np_searchsorted ?row t)
           in if found = 0 then 1 else if found \<ge> num_points td then num_points td - 1 else found)
          = int (Suc 0)"
      using found by (simp add: Let_def)
    show "?row ! 0 < ?row ! Suc 0"
      using strict_sorted_nth_less [OF assms(4), of 0 "Suc 0"] row assms(5) by simp
  qed
qed

text \<open>Every mq and every age: which tracks \<open>interpolate_in_table\<close> reads, and what it
  returns.\<close>

lemma np_interp_held:
  assumes "wf_track tr" "length (key tr) = length (time tr)"
  shows "np_interp t (time tr) (key tr) = Inr (held_value tr key t)"
proof -
  have ne: "time tr \<noteq> []" "key tr \<noteq> []" using assms by (auto simp: wf_track_def)
  then show ?thesis
    using assms(2) by (simp add: np_interp_def held_value_def hd_conv_nth last_conv_nth)
qed

lemma type_at_total:
  assumes "wf_track tr"
  shows "\<exists>ty. type_at tr t = Inr ty"
proof -
  have "0 < length (stellar_type tr)" using assms by (simp add: wf_track_def)
  then show ?thesis by (simp add: type_at_def np_clip_def py_index_def)
qed

lemma interpolate_single_held:
  assumes "wf_track tr"
  shows "\<exists>ty. interpolate_single t tr =
           Inr \<lparr>props_luminosity = held_value tr luminosity t,
                props_temperature = held_value tr temperature t,
                props_radius = held_value tr radius t,
                props_mass_loss_rate = held_value tr mass_loss_rate t,
                props_stellar_type = ty\<rparr>"
proof -
  from type_at_total [OF assms] obtain ty where "type_at tr t = Inr ty" by blast
  moreover have "np_interp t (time tr) (luminosity tr) = Inr (held_value tr luminosity t)"
    "np_interp t (time tr) (temperature tr) = Inr (held_value tr temperature t)"
    "np_interp t (time tr) (radius tr) = Inr (held_value tr radius t)"
    "np_interp t (time tr) (mass_loss_rate tr) = Inr (held_value tr mass_loss_rate t)"
    using assms by (intro np_interp_held; simp add: wf_track_def)+
  ultimately show ?thesis by (simp add: interpolate_single_def)
qed

lemma blend_held:
  assumes "wf_track track1" "wf_track track2"
    and "length (key track1) = length (time track1)" "length (key track2) = length (time track2)"
  shows "blend w1 w2 t track1 track2 key =
           Inr (w1 * held_value track1 key t + w2 * held_value track2 key t)"
  using np_interp_held [where key = key, OF assms(1,3)] np_interp_held [where key = key, OF assms(2,4)]
  by (simp add: blend_def)

lemma interpolate_between_held:
  assumes "wf_track track1" "wf_track track2"
  shows "\<exists>ty. interpolate_between w1 w2 t track1 track2 =
           Inr \<lparr>props_luminosity = w1 * held_value track1 luminosity t + w2 * held_value track2 luminosity t,
                props_temperature = w1 * held_value track1 temperature t + w2 * held_value track2 temperature t,
                props_radius = w1 * held_value track1 radius t + w2 * held_value track2 radius t,
                props_mass_loss_rate =
                  w1 * held_value track1 mass_loss_rate t + w2 * held_value track2 mass_loss_rate t,
                props_stellar_type = ty\<rparr>"
proof -
  from type_at_total [OF assms(1)] type_at_total [OF assms(2)]
  obtain ty where "(if w1 > 1 / 2 then type_at track1 t else type_at track2 t) = Inr ty"
    by (cases "w1 > 1 / 2") auto
  moreover have
    "blend w1 w2 t track1 track2 luminosity =
       Inr (w1 * held_value track1 luminosity t + w2 * held_value track2 luminosity t)"
    "blend w1 w2 t track1 track2 temperature =
       Inr (w1 * held_value track1 temperature t + w2 * held_value track2 temperature t)"
    "blend w1 w2 t track1 track2 radius =
       Inr (w1 * held_value track1 radius t + w2 * held_value track2 radius t)"
    "blend w1 w2 t track1 track2 mass_loss_rate =
       Inr (w1 * held_value track1 mass_loss_rate t + w2 * held_value track2 mass_loss_rate t)"
    using assms by (intro blend_held; simp add: wf_track_def)+
  ultimately show ?thesis by (simp add: interpolate_between_def)
qed

lemma sorted_keys_first:
  assumes d: "distinct (map fst tbl)" and mem: "(m :: real, tr) \<in> set tbl"
    and low: "\<forall>(m', tr') \<in> set tbl. m \<le> m'"
  shows "sort (map fst tbl) ! 0 = m"
proof -
  let ?ms = "sort (map fst tbl)"
  note S = sorted_keys [OF d]
  from mem have "m \<in> set ?ms" by (force simp: S(2))
  then obtain j where j: "j < length ?ms" "?ms ! j = m" unfolding in_set_conv_nth by blast
  have "?ms ! 0 \<in> set ?ms" using j(1) by (intro nth_mem) auto
  then have "m \<le> ?ms ! 0" using low by (force simp: S(2))
  moreover have "?ms ! 0 \<le> ?ms ! j" using strict_sorted_nth_le [OF S(1), of 0 j] j(1) by simp
  ultimately show ?thesis using j(2) by simp
qed

lemma sorted_keys_last:
  assumes d: "distinct (map fst tbl)" and mem: "(m :: real, tr) \<in> set tbl"
    and high: "\<forall>(m', tr') \<in> set tbl. m' \<le> m"
  shows "sort (map fst tbl) ! (length tbl - 1) = m"
proof -
  let ?ms = "sort (map fst tbl)"
  note S = sorted_keys [OF d]
  from mem have "m \<in> set ?ms" by (force simp: S(2))
  then obtain j where j: "j < length ?ms" "?ms ! j = m" unfolding in_set_conv_nth by blast
  have l: "length tbl - 1 < length ?ms" using j(1) S(3) by simp
  then have "?ms ! (length tbl - 1) \<in> set ?ms" by (intro nth_mem)
  then have "?ms ! (length tbl - 1) \<le> m" using high by (force simp: S(2))
  moreover have "?ms ! j \<le> ?ms ! (length tbl - 1)"
    using strict_sorted_nth_le [OF S(1), of j "length tbl - 1"] j(1) l S(3) by simp
  ultimately show ?thesis using j(2) by simp
qed

lemma interpolate_in_table_lowest:
  assumes d: "distinct (map fst tbl)" and mem: "(m :: real, tr) \<in> set tbl"
    and low: "\<forall>(m', tr') \<in> set tbl. m \<le> m'" and le: "mq \<le> m"
  shows "interpolate_in_table tbl mq t = interpolate_single t tr"
proof -
  let ?ms = "sort (map fst tbl)"
  have "tbl \<noteq> []" using mem by auto
  then have ne: "?ms \<noteq> []" by (metis length_0_conv length_map length_sort)
  have first: "py_index ?ms 0 = Inr m"
    using ne sorted_keys_first [OF d mem low] by (simp add: py_index_first hd_conv_nth)
  have get: "dict_get tbl m = Inr tr" using d mem by (rule dict_get_key)
  show ?thesis using first get le by (simp add: interpolate_in_table_def Let_def)
qed

lemma interpolate_in_table_highest:
  assumes d: "distinct (map fst tbl)" and mem: "(m :: real, tr) \<in> set tbl"
    and high: "\<forall>(m', tr') \<in> set tbl. m' \<le> m" and ge: "m \<le> mq"
  shows "interpolate_in_table tbl mq t = interpolate_single t tr"
proof -
  let ?ms = "sort (map fst tbl)"
  note S = sorted_keys [OF d]
  have "tbl \<noteq> []" using mem by auto
  then have ne: "?ms \<noteq> []" by (metis length_0_conv length_map length_sort)
  have first: "py_index ?ms 0 = Inr (?ms ! 0)" using ne by (simp add: py_index_first hd_conv_nth)
  have last: "py_index ?ms (-1) = Inr m"
    using ne sorted_keys_last [OF d mem high] by (simp add: py_index_last last_conv_nth)
  have get: "dict_get tbl m = Inr tr" using d mem by (rule dict_get_key)
  have "?ms ! 0 \<in> set ?ms" using ne by (intro nth_mem) auto
  then have f: "?ms ! 0 \<le> m" using high by (force simp: S(2))
  show ?thesis
  proof (cases "mq \<le> ?ms ! 0")
    case True
    with f ge have "?ms ! 0 = m" by simp
    with True first get show ?thesis by (simp add: interpolate_in_table_def Let_def)
  next
    case False
    with first last get ge show ?thesis by (simp add: interpolate_in_table_def Let_def)
  qed
qed

lemma interpolate_in_table_between:
  assumes d: "distinct (map fst tbl)"
    and mem: "(m1, track1) \<in> set tbl" "(m2, track2) \<in> set tbl"
    and lt: "m1 < mq" "mq \<le> m2"
    and adj: "\<forall>(m', tr') \<in> set tbl. m' \<le> m1 \<or> m2 \<le> m'"
  shows "interpolate_in_table tbl mq t =
           (if \<forall>(m', tr') \<in> set tbl. m' \<le> mq then interpolate_single t track2
            else interpolate_between ((m2 - mq) / (m2 - m1)) ((mq - m1) / (m2 - m1)) t track1 track2)"
proof -
  let ?ms = "sort (map fst tbl)"
  note S = sorted_keys [OF d]
  from mem(1) have "m1 \<in> set ?ms" by (force simp: S(2))
  then obtain i where i: "i < length ?ms" "?ms ! i = m1" unfolding in_set_conv_nth by blast
  from mem(2) have "m2 \<in> set ?ms" by (force simp: S(2))
  then obtain j where j: "j < length ?ms" "?ms ! j = m2" unfolding in_set_conv_nth by blast
  have m12: "m1 < m2" using lt by simp
  have ij: "i < j"
  proof (rule ccontr)
    assume "\<not> i < j"
    then have "j \<le> i" by simp
    from strict_sorted_nth_le [OF S(1) this i(1)] i(2) j(2) m12 show False by simp
  qed
  have adj': "?ms ! k \<le> m1 \<or> m2 \<le> ?ms ! k" if "k < length ?ms" for k
  proof -
    have "?ms ! k \<in> set ?ms" using that by (rule nth_mem)
    then show ?thesis using adj by (force simp: S(2))
  qed
  have j1: "j = Suc i"
  proof (rule ccontr)
    assume "j \<noteq> Suc i"
    with ij have k: "i < Suc i" "Suc i < j" by simp_all
    have "m1 < ?ms ! Suc i" using strict_sorted_nth_less [OF S(1), of i "Suc i"] k j(1) i(2) by simp
    moreover have "?ms ! Suc i < m2" using strict_sorted_nth_less [OF S(1) k(2) j(1)] j(2) by simp
    ultimately show False using adj' [of "Suc i"] k(2) j(1) by simp
  qed
  have "tbl \<noteq> []" using mem by auto
  then have ne: "?ms \<noteq> []" by (metis length_0_conv length_map length_sort)
  have first: "py_index ?ms 0 = Inr (?ms ! 0)" using ne by (simp add: py_index_first hd_conv_nth)
  have last: "py_index ?ms (-1) = Inr (?ms ! (length ?ms - 1))"
    using ne by (simp add: py_index_last last_conv_nth)
  have lo: "?ms ! 0 < mq"
    using strict_sorted_nth_le [OF S(1), of 0 i] i lt(1) by simp
  have get: "dict_get tbl m1 = Inr track1" "dict_get tbl m2 = Inr track2"
    using d mem by (simp_all add: dict_get_key)
  have top: "(\<forall>(m', tr') \<in> set tbl. m' \<le> mq) \<longleftrightarrow> ?ms ! (length ?ms - 1) \<le> mq"
  proof
    assume "\<forall>(m', tr') \<in> set tbl. m' \<le> mq"
    moreover have "?ms ! (length ?ms - 1) \<in> set ?ms" using j(1) by (intro nth_mem) auto
    ultimately show "?ms ! (length ?ms - 1) \<le> mq" by (force simp: S(2))
  next
    assume a: "?ms ! (length ?ms - 1) \<le> mq"
    have "m' \<le> mq" if "(m', tr') \<in> set tbl" for m' tr'
    proof -
      from that have "m' \<in> set ?ms" by (force simp: S(2))
      then obtain k where k: "k < length ?ms" "?ms ! k = m'" unfolding in_set_conv_nth by blast
      have "k \<le> length ?ms - 1" "length ?ms - 1 < length ?ms" using k(1) by simp_all
      from strict_sorted_nth_le [OF S(1) this] k(2) a show ?thesis by simp
    qed
    then show "\<forall>(m', tr') \<in> set tbl. m' \<le> mq" by blast
  qed
  show ?thesis
  proof (cases "?ms ! (length ?ms - 1) \<le> mq")
    case True
    have "j \<le> length ?ms - 1" "length ?ms - 1 < length ?ms" using j(1) by simp_all
    from strict_sorted_nth_le [OF S(1) this] j(2) have "m2 \<le> ?ms ! (length ?ms - 1)" by simp
    with True lt(2) have "?ms ! (length ?ms - 1) = m2" by simp
    with True top lo first last get show ?thesis by (simp add: interpolate_in_table_def Let_def)
  next
    case False
    have idx: "np_searchsorted ?ms mq = Suc i"
      using searchsorted_interior [OF S(1), of i mq] j j1 i lt by simp
    have i1: "py_index ?ms (int (Suc i) - 1) = Inr m1"
      using py_index_nth [OF i(1)] i(2) by simp
    have i2: "py_index ?ms (int (Suc i)) = Inr m2"
      using py_index_nth [of "Suc i" ?ms] j j1 by simp
    have ws: "float_truediv (m2 - mq) (m2 - m1) = Inr ((m2 - mq) / (m2 - m1))"
      "float_truediv (mq - m1) (m2 - m1) = Inr ((mq - m1) / (m2 - m1))"
      using m12 by (simp_all add: float_truediv_def)
    have "interpolate_in_table tbl mq t =
            interpolate_between ((m2 - mq) / (m2 - m1)) ((mq - m1) / (m2 - m1)) t track1 track2"
      using False lo first last idx i1 i2 get ws by (simp add: interpolate_in_table_def Let_def)
    moreover have "\<not> (\<forall>(m', tr') \<in> set tbl. m' \<le> mq)" using False top by blast
    ultimately show ?thesis by (simp only: if_False)
  qed
qed

section \<open>Lemmas on the driver\<close>

lemma py_index_replicate:
  "0 \<le> i \<Longrightarrow> i < int n \<Longrightarrow> py_index (replicate n x) i = Inr x"
  by (simp add: py_index_def)

lemma searchsorted_replicate:
  "np_searchsorted (replicate n 0) t = (if 0 < t then n else 0)"
  by (simp add: np_searchsorted_def)

lemma TrackData_init_dummy:
  "TrackData_init TrackData_new 1 100 =
     Inr (TrackData_new\<lparr>num_masses := 1, num_points := 100, init_mass := Some [0],
            log_init_mass := Some [0], age := Some [replicate 100 0],
            log_age := Some [replicate 100 0], mass := Some [replicate 100 0],
            log_mass := Some [replicate 100 0], log_lum := Some [replicate 100 0],
            log_teff := Some [replicate 100 0], mdot := Some [replicate 100 0],
            h_frac := Some [replicate 100 0], he_frac := Some [replicate 100 0],
            c_frac := Some [replicate 100 0], n_frac := Some [replicate 100 0],
            o_frac := Some [replicate 100 0]\<rparr>)"
  by (simp add: TrackData_init_def Let_def)

lemma dummy_interpolates_to_zero:
  assumes "TrackData_init TrackData_new 1 100 = Inr td"
  shows "interpolate_in_time td 0 t = Inr (map (\<lambda>(attr, get). (attr, 0)) interpolated_attrs)"
proof -
  have i2: "index2 [replicate 100 (0::real)] 0 j = Inr 0" if "0 \<le> j" "j < 100" for j
    using that by (simp add: index2_def py_index_def)
  have td: "td = TrackData_new\<lparr>num_masses := 1, num_points := 100, init_mass := Some [0],
            log_init_mass := Some [0], age := Some [replicate 100 0],
            log_age := Some [replicate 100 0], mass := Some [replicate 100 0],
            log_mass := Some [replicate 100 0], log_lum := Some [replicate 100 0],
            log_teff := Some [replicate 100 0], mdot := Some [replicate 100 0],
            h_frac := Some [replicate 100 0], he_frac := Some [replicate 100 0],
            c_frac := Some [replicate 100 0], n_frac := Some [replicate 100 0],
            o_frac := Some [replicate 100 0]\<rparr>"
    using assms unfolding TrackData_init_dummy by simp
  have r: "py_index [replicate 100 (0::real)] 0 = Inr (replicate 100 0)"
    by (simp add: py_index_def)
  show ?thesis
  proof (cases "0 < t")
    case True
    then show ?thesis
      unfolding td
      by (simp add: interpolate_in_time_def r searchsorted_replicate py_index_replicate
          interpolated_attrs_def i2 Let_def)
  next
    case False
    then show ?thesis
      unfolding td
      by (simp add: interpolate_in_time_def r searchsorted_replicate py_index_replicate
          interpolated_attrs_def i2 Let_def)
  qed
qed

lemma try_load_cases:
  "(\<exists>e. try_load fs s name = Inl e \<and> load_tracks fs (stellar_tracks s) (stem name) = Inl e) \<or>
   (\<exists>st td. try_load fs s name = Inr (st, td) \<and> TrackData_init TrackData_new 1 100 = Inr td \<and>
            load_tracks fs (stellar_tracks s) (stem name) = Inr st)"
  by (cases "load_tracks fs (stellar_tracks s) (stem name)")
     (simp_all add: try_load_def TrackData_init_dummy)

lemma load_or_fallback_continues:
  "snd (load_or_fallback fs s name) = None \<and>
   (\<exists>td. TrackData_init TrackData_new 1 100 = Inr td \<and>
         GalaxyModel.tracks (galaxy (fst (load_or_fallback fs s name))) = [td])"
  using try_load_cases [of fs s name]
  by (auto simp: load_or_fallback_def TrackData_init_dummy Let_def)

lemma load_or_fallback_logged:
  "set (logged s) \<subseteq> set (logged (fst (load_or_fallback fs s name)))"
  using try_load_cases [of fs s name]
  by (auto simp: load_or_fallback_def TrackData_init_dummy Let_def)

lemma load_or_fallback_logs_error:
  "load_tracks fs (stellar_tracks s) (stem name) = Inl e \<Longrightarrow>
   (ERROR, ''Error reading tracks'') \<in> set (logged (fst (load_or_fallback fs s name)))"
  by (simp add: load_or_fallback_def try_load_def TrackData_init_dummy Let_def)

lemma read_tracks_selected:
  "fs (track_path (track_filename (iz (galaxy s)))) \<noteq> None \<Longrightarrow>
   read_tracks fs s = load_or_fallback fs s (track_filename (iz (galaxy s)))"
  by (auto simp: read_tracks_def Let_def)

lemma read_tracks_default:
  "fs (track_path (track_filename (iz (galaxy s)))) = None \<Longrightarrow>
   fs (track_path ''Z0140v00.txt'') \<noteq> None \<Longrightarrow>
   read_tracks fs s =
     load_or_fallback fs
       (s\<lparr>logged := logged s @ [(WARNING, ''Track file not found, using default'')]\<rparr>)
       ''Z0140v00.txt''"
  by (auto simp: read_tracks_def Let_def)

lemma read_tracks_both_missing:
  "fs (track_path (track_filename (iz (galaxy s)))) = None \<Longrightarrow>
   fs (track_path ''Z0140v00.txt'') = None \<Longrightarrow>
   read_tracks fs s =
     (s\<lparr>logged := logged s @ [(WARNING, ''Track file not found, using default'')]\<rparr>,
      Some FileNotFoundError)"
  by (simp add: read_tracks_def Let_def)


lemma tstep_never_set:
  "tstep (galaxy (sync_parameters params Starburst99_init)) = 0"
  by (simp add: sync_parameters_def Starburst99_init_def GalaxyModel_init_def)

lemma update_time_logarithmic:
  assumes "jtime (galaxy s) \<noteq> 0"
  shows "sb_time (update_time s) =
           (if sb_icount s = 1 then time1 (galaxy s) else tvar (galaxy s) * tstep (galaxy s))"
    and "tvar (galaxy (update_time s)) = sb_time (update_time s)"
    and "tstep (galaxy (update_time s)) = tstep (galaxy s)"
    and "time1 (galaxy (update_time s)) = time1 (galaxy s)"
  using assms by (simp_all add: update_time_def Let_def)

text \<open>The logarithmic loop ends, and from the second step on the time of step \<open>j\<close> is
  \<open>time1 * tstep ^ (j - 2)\<close>.\<close>

lemma logarithmic_loop_from:
  assumes "jtime (galaxy s) \<noteq> 0" "itbiv (galaxy s) = int n"
  shows "2 \<le> c \<Longrightarrow> c \<le> n \<Longrightarrow> sb_icount s = int c \<Longrightarrow>
         tvar (galaxy s) = time1 (galaxy s) * tstep (galaxy s) ^ (c - 2) \<Longrightarrow>
         sb_time s = tvar (galaxy s) \<Longrightarrow>
         \<exists>s'. main_calculation_loop s out =
                Some (s', out @ map (\<lambda>j. (time1 (galaxy s) * tstep (galaxy s) ^ (j - 2), int j)) [c..<Suc n])
              \<and> sb_time s' = time1 (galaxy s) * tstep (galaxy s) ^ (n - 1)
              \<and> sb_icount s' = int n + 1"
  using assms
proof (induction "n - c" arbitrary: c s out)
  case 0
  then have c: "c = n" by simp
  let ?s1 = "update_time s"
  have t: "sb_time ?s1 = time1 (galaxy s) * tstep (galaxy s) ^ (n - 1)"
  proof -
    have "tstep (galaxy s) ^ (n - 2) * tstep (galaxy s) = tstep (galaxy s) ^ (n - 1)"
      using "0.prems"(1) c by (metis Suc_diff_Suc Suc_1 power_Suc2 Suc_le_lessD)
    then show ?thesis
      using "0.prems" c by (simp add: update_time_def Let_def mult.assoc)
  qed
  have stop: "\<not> continue_evolution ?s1"
    using "0.prems" c by (simp add: continue_evolution_def update_time_def Let_def)
  have "main_calculation_loop s out =
          Some (?s1\<lparr>sb_icount := sb_icount ?s1 + 1\<rparr>, out @ [(sb_time s, sb_icount s)])"
    using stop by (subst main_calculation_loop.simps) (simp add: Let_def)
  moreover have "sb_icount ?s1 = int n" using "0.prems" c by (simp add: update_time_def Let_def)
  ultimately show ?case using "0.prems" c t by simp
next
  case (Suc d)
  then have lt: "c < n" by simp
  let ?s1 = "update_time s"
  let ?s2 = "?s1\<lparr>sb_icount := sb_icount ?s1 + 1\<rparr>"
  have g: "time1 (galaxy ?s2) = time1 (galaxy s)" "tstep (galaxy ?s2) = tstep (galaxy s)"
    "jtime (galaxy ?s2) \<noteq> 0" "itbiv (galaxy ?s2) = int n"
    using Suc.prems by (simp_all add: update_time_def Let_def)
  have pw: "tstep (galaxy s) ^ (c - 2) * tstep (galaxy s) = tstep (galaxy s) ^ (Suc c - 2)"
    using Suc.prems(1) by (metis Suc_diff_le power_Suc2)
  have tv: "tvar (galaxy ?s2) = time1 (galaxy ?s2) * tstep (galaxy ?s2) ^ (Suc c - 2)"
    using Suc.prems pw by (simp add: update_time_def Let_def mult.assoc)
  have tm: "sb_time ?s2 = tvar (galaxy ?s2)"
    using Suc.prems by (simp add: update_time_def Let_def)
  have ic: "sb_icount ?s2 = int (Suc c)"
    using Suc.prems by (simp add: update_time_def Let_def)
  have cont: "continue_evolution ?s1"
    using Suc.prems lt by (simp add: continue_evolution_def update_time_def Let_def)
  have step: "main_calculation_loop s out = main_calculation_loop ?s2 (out @ [(sb_time s, sb_icount s)])"
    using cont by (subst main_calculation_loop.simps) (simp add: Let_def)
  have d: "d = n - Suc c" using Suc.hyps(2) by simp
  from Suc.hyps(1) [OF d _ _ ic tv tm g(3,4), of "out @ [(sb_time s, sb_icount s)]"] lt Suc.prems(1)
  obtain s' where s': "main_calculation_loop ?s2 (out @ [(sb_time s, sb_icount s)]) =
      Some (s', (out @ [(sb_time s, sb_icount s)]) @
                map (\<lambda>j. (time1 (galaxy ?s2) * tstep (galaxy ?s2) ^ (j - 2), int j)) [Suc c..<Suc n])"
    "sb_time s' = time1 (galaxy ?s2) * tstep (galaxy ?s2) ^ (n - 1)" "sb_icount s' = int n + 1"
    by auto
  have "[c..<Suc n] = c # [Suc c..<Suc n]" using lt by (simp add: upt_conv_Cons)
  with s' step g Suc.prems show ?case by simp
qed

lemma logarithmic_loop_times:
  assumes "jtime (galaxy s) \<noteq> 0" "itbiv (galaxy s) = int n" "1 \<le> n" "sb_icount s = 1"
  shows "\<exists>s'. main_calculation_loop s [] =
                Some (s', (sb_time s, 1) #
                          map (\<lambda>j. (time1 (galaxy s) * tstep (galaxy s) ^ (j - 2), int j)) [2..<Suc n])
              \<and> sb_time s' = time1 (galaxy s) * tstep (galaxy s) ^ (n - 1)"
proof (cases "n = 1")
  case True
  let ?s1 = "update_time s"
  have stop: "\<not> continue_evolution ?s1"
    using assms True by (simp add: continue_evolution_def update_time_def Let_def)
  have "main_calculation_loop s [] =
          Some (?s1\<lparr>sb_icount := sb_icount ?s1 + 1\<rparr>, [(sb_time s, sb_icount s)])"
    using stop by (subst main_calculation_loop.simps) (simp add: Let_def)
  then show ?thesis using assms True by (simp add: update_time_def Let_def)
next
  case False
  with assms have n2: "2 \<le> n" by simp
  let ?s1 = "update_time s"
  let ?s2 = "?s1\<lparr>sb_icount := sb_icount ?s1 + 1\<rparr>"
  have g: "time1 (galaxy ?s2) = time1 (galaxy s)" "tstep (galaxy ?s2) = tstep (galaxy s)"
    "jtime (galaxy ?s2) \<noteq> 0" "itbiv (galaxy ?s2) = int n"
    using assms by (simp_all add: update_time_def Let_def)
  have tv: "tvar (galaxy ?s2) = time1 (galaxy ?s2) * tstep (galaxy ?s2) ^ (2 - 2)"
    and tm: "sb_time ?s2 = tvar (galaxy ?s2)" and ic: "sb_icount ?s2 = int 2"
    using assms by (simp_all add: update_time_def Let_def)
  have cont: "continue_evolution ?s1"
    using assms n2 by (simp add: continue_evolution_def update_time_def Let_def)
  have step: "main_calculation_loop s [] = main_calculation_loop ?s2 [(sb_time s, sb_icount s)]"
    using cont by (subst main_calculation_loop.simps) (simp add: Let_def)
  from logarithmic_loop_from [OF g(3,4) _ n2 ic tv tm, of "[(sb_time s, sb_icount s)]"]
  show ?thesis using step g assms(4) by auto
qed

section \<open>Construction of an IMF\<close>

lemma int_items_list:
  assumes "np_array_dtype xs = int64"
  shows "\<exists>zs. xs = map IntItem zs"
proof -
  from assms have "list_all is_int_item xs"
    by (simp add: np_array_dtype_def split: if_splits)
  then show ?thesis
  proof (induction xs)
    case (Cons x xs)
    then obtain zs where "xs = map IntItem zs" by auto
    moreover from Cons.prems obtain z where "x = IntItem z" by (cases x) simp_all
    ultimately have "x # xs = map IntItem (z # zs)" by simp
    then show ?case by (rule exI)
  qed simp
qed

lemma np_diff_ints:
  "\<forall>z \<in> set zs. \<bar>z\<bar> < 2 ^ 62 \<Longrightarrow>
     map (\<lambda>d. of_int (wrap64 \<lfloor>d\<rfloor>)) (np_diff (map of_int zs)) = np_diff (map of_int zs)"
proof (induction zs rule: induct_list012)
  case (3 x y zs)
  have "\<lfloor>(of_int y :: real) - of_int x\<rfloor> = y - x"
    by (metis floor_of_int of_int_diff)
  moreover have "wrap64 (y - x) = y - x"
    using 3(3) by (intro wrap64_id) auto
  ultimately show ?case using 3 by simp
qed simp_all

lemma array_diff_positive:
  assumes "\<forall>z. IntItem z \<in> set mll \<longrightarrow> \<bar>z\<bar> < 2 ^ 62"
  shows "list_all (\<lambda>d. d > 0) (array_diff (np_array_dtype mll) (np_array mll))
           \<longleftrightarrow> sorted_wrt (<) (np_array mll)"
proof (cases "np_array_dtype mll")
  case float64
  then show ?thesis by (simp add: array_diff_def np_diff_positive_iff)
next
  case int64
  from int_items_list [OF this] obtain zs where zs: "mll = map IntItem zs" by blast
  have "\<forall>z \<in> set zs. \<bar>z\<bar> < 2 ^ 62" using assms zs by auto
  from np_diff_ints [OF this] have "array_diff int64 (map of_int zs) = np_diff (map of_int zs)"
    by (simp add: array_diff_def)
  moreover have "np_array mll = map of_int zs" by (simp add: zs np_array_def comp_def)
  ultimately show ?thesis using int64 by (simp add: np_diff_positive_iff)
qed

lemma negative_power_exponent:
  assumes "np_array_dtype exl = int64" "\<forall>z. IntItem z \<in> set exl \<longrightarrow> \<bar>z\<bar> < 2 ^ 62"
    "j < length exl"
  shows "np_array exl ! j \<noteq> -1 \<and> wrap64 (\<lfloor>np_array exl ! j\<rfloor> + 1) < 0 \<longleftrightarrow> np_array exl ! j < -1"
proof -
  from int_items_list [OF assms(1)] obtain zs where zs: "exl = map IntItem zs" by blast
  have v: "np_array exl ! j = of_int (zs ! j)" using assms(3) zs by (simp add: np_array_def)
  have "IntItem (zs ! j) \<in> set exl" using assms(3) zs by (metis nth_mem length_map nth_map)
  with assms(2) have b: "\<bar>zs ! j\<bar> < 2 ^ 62" by blast
  then have "wrap64 (zs ! j + 1) = zs ! j + 1" by (intro wrap64_id) auto
  then show ?thesis unfolding v by (simp, linarith)
qed

text \<open>Two lists of integers, evaluated directly: an exponent below \<open>-1\<close> makes the
  constructor raise in \<open>_calculate_normalizations\<close>; exponent 2 is accepted.\<close>

lemma IMF_init_integer_lists:
  "IMF_init 1 [IntItem (- 3)] [IntItem 1, IntItem 100] = Inl ValueError \<and>
   IMF_init 1 [IntItem 2] [IntItem 1, IntItem 100] =
     Inr \<lparr>intervals = 1, exponents = [2], mass_limits = [1, 100], normalizations = [Some 333333],
          exponents_dtype = int64, mass_limits_dtype = int64\<rparr>"
  by (simp add: IMF_init_def validate_parameters_def calculate_normalizations_def normalization_def
      np_array_def np_array_dtype_def array_diff_def int64_power_def wrap64_def np_divide_def Let_def)

text \<open>
  C6. The three conditions of the claim make the constructor fail, with a ValueError, and
  for two lists of which one holds a float they are the only failures. They are not the
  only failures of the code: when both lists hold integers only, the arrays are \<open>int64\<close>
  and \<open>_calculate_normalizations\<close> raises ValueError for an exponent below \<open>-1\<close>, although
  the counts match and the mass limits increase. Stated for lists whose integers are below
  \<open>2 ** 62\<close> in magnitude, so that no difference of two of them wraps around: constructing
  an IMF fails exactly in these four cases; every failure is a ValueError; in \<open>run\<close> the
  IMF is constructed before the tracks are read and the loop is entered, and the failure
  ends the run with \<open>sys.exit(1)\<close>: nothing after the construction is executed.
\<close>

theorem IMF_init_fails_iff:
  assumes "\<forall>z. IntItem z \<in> set exl \<union> set mll \<longrightarrow> \<bar>z\<bar> < 2 ^ 62"
  shows "((\<exists>e. IMF_init n exl mll = Inl e) \<longleftrightarrow>
            (int (length exl) \<noteq> n \<or> int (length mll) \<noteq> n + 1 \<or> \<not> sorted_wrt (<) (np_array mll) \<or>
             (np_array_dtype exl = int64 \<and> np_array_dtype mll = int64 \<and>
              (\<exists>x \<in> set (np_array exl). x < -1)))) \<and>
         (\<forall>e. IMF_init n exl mll = Inl e \<longrightarrow> e = ValueError) \<and>
         (\<forall>env params e.
            env_initialize env = None \<and> env_read_input env = Inr params \<and>
            num_intervals params = n \<and> ModelParameters.exponents params = exl \<and>
            ModelParameters.mass_limits params = mll \<and> IMF_init n exl mll = Inl e \<longrightarrow>
            run env = ([Initialize, ReadInput, ConstructIMF], SysExit 1))"
proof -
  let ?ex = "np_array exl" and ?ml = "np_array mll"
  let ?de = "np_array_dtype exl" and ?dm = "np_array_dtype mll"
  have bm: "\<forall>z. IntItem z \<in> set mll \<longrightarrow> \<bar>z\<bar> < 2 ^ 62"
    and be: "\<forall>z. IntItem z \<in> set exl \<longrightarrow> \<bar>z\<bar> < 2 ^ 62" using assms by auto
  have v: "(\<exists>e. validate_parameters n ?ex ?dm ?ml = Inl e) \<longleftrightarrow>
             (int (length exl) \<noteq> n \<or> int (length mll) \<noteq> n + 1 \<or> \<not> sorted_wrt (<) ?ml)"
    using array_diff_positive [OF bm]
    by (simp add: validate_parameters_def length_np_array)
  have a: "(\<exists>e. IMF_init n exl mll = Inl e) \<longleftrightarrow>
            (int (length exl) \<noteq> n \<or> int (length mll) \<noteq> n + 1 \<or> \<not> sorted_wrt (<) ?ml \<or>
             (?de = int64 \<and> ?dm = int64 \<and> (\<exists>x \<in> set ?ex. x < -1)))"
  proof (cases "validate_parameters n ?ex ?dm ?ml")
    case (Inl e)
    then have "IMF_init n exl mll = Inl e" by (simp add: IMF_init_cases)
    with Inl v show ?thesis by auto
  next
    case (Inr u)
    with v have ok: "int (length exl) = n" "int (length mll) = n + 1" "sorted_wrt (<) ?ml"
      by auto
    have init: "(\<exists>e. IMF_init n exl mll = Inl e) \<longleftrightarrow>
                  (\<exists>e. normalizations_loop ?de ?ex ?dm ?ml [0..<nat n] = Inl e)"
      using Inr by (auto simp: IMF_init_cases split: sum.splits)
    show ?thesis
    proof (cases "?de = int64 \<and> ?dm = int64")
      case True
      have "(\<exists>j \<in> set [0..<nat n]. ?ex ! j \<noteq> -1 \<and> wrap64 (\<lfloor>?ex ! j\<rfloor> + 1) < 0)
              \<longleftrightarrow> (\<exists>j < length exl. ?ex ! j < -1)"
        using negative_power_exponent [OF _ be] True ok(1) by auto
      also have "\<dots> \<longleftrightarrow> (\<exists>x \<in> set ?ex. x < -1)"
        by (metis in_set_conv_nth length_np_array)
      finally show ?thesis
        using init True ok normalizations_loop_int [of ?ex ?ml "[0..<nat n]"] by simp
    next
      case False
      from normalizations_loop_float [OF False, of ?ex ?ml "[0..<nat n]"] init ok False
      show ?thesis by auto
    qed
  qed
  have b: "e = ValueError" if "IMF_init n exl mll = Inl e" for e
    using that validate_parameters_fault normalizations_loop_fault
    by (auto simp: IMF_init_cases split: sum.splits)
  have c: "run env = ([Initialize, ReadInput, ConstructIMF], SysExit 1)"
    if "env_initialize env = None" "env_read_input env = Inr params"
      "num_intervals params = n" "ModelParameters.exponents params = exl"
      "ModelParameters.mass_limits params = mll" "IMF_init n exl mll = Inl e" for env params e
    using that by (simp add: run_def)
  from a b c show ?thesis by blast
qed

theorem IMF_init_fails_iff_witness:
  "IMF_init 1 [IntItem (- 3)] [IntItem 1, IntItem 100] = Inl ValueError \<and>
   int (length [IntItem (- 3)]) = 1 \<and> int (length [IntItem 1, IntItem 100]) = 1 + 1 \<and>
   sorted_wrt (<) (np_array [IntItem 1, IntItem 100]) \<and>
   \<not> (\<exists>e. IMF_init 1 [FloatItem (- 3)] [FloatItem 1, FloatItem 100] = Inl e) \<and>
   \<not> (\<exists>e. IMF_init 1 [FloatItem (235 / 100)] [FloatItem 1, FloatItem 100] = Inl e) \<and>
   IMF_init 1 [FloatItem (235 / 100)] [FloatItem 10, FloatItem 1] = Inl ValueError \<and>
   run \<lparr>env_initialize = None,
        env_read_input = Inr (ModelParameters_default\<lparr>ModelParameters.exponents := [IntItem (- 3)],
                                ModelParameters.mass_limits := [IntItem 1, IntItem 100]\<rparr>),
        env_after_imf = (\<lambda>imf. None)\<rparr> = ([Initialize, ReadInput, ConstructIMF], SysExit 1)"
proof -
  note i = IMF_init_fails_iff [where exl = "[IntItem (- 3)]" and mll = "[IntItem 1, IntItem 100]" and n = 1]
  have "\<exists>e. IMF_init 1 [IntItem (- 3)] [IntItem 1, IntItem 100] = Inl e"
    using i by (auto simp: np_array_def np_array_dtype_def)
  then obtain e where e: "IMF_init 1 [IntItem (- 3)] [IntItem 1, IntItem 100] = Inl e" ..
  with i have a: "IMF_init 1 [IntItem (- 3)] [IntItem 1, IntItem 100] = Inl ValueError" by auto
  have r: "run \<lparr>env_initialize = None,
        env_read_input = Inr (ModelParameters_default\<lparr>ModelParameters.exponents := [IntItem (- 3)],
                                ModelParameters.mass_limits := [IntItem 1, IntItem 100]\<rparr>),
        env_after_imf = (\<lambda>imf. None)\<rparr> = ([Initialize, ReadInput, ConstructIMF], SysExit 1)"
    using i a by (auto simp: ModelParameters_default_def)
  have b: "\<not> (\<exists>e. IMF_init 1 [FloatItem (- 3)] [FloatItem 1, FloatItem 100] = Inl e)"
    using IMF_init_fails_iff [where exl = "[FloatItem (- 3)]" and mll = "[FloatItem 1, FloatItem 100]" and n = 1]
    by (simp add: np_array_def np_array_dtype_def)
  have c: "\<not> (\<exists>e. IMF_init 1 [FloatItem (235 / 100)] [FloatItem 1, FloatItem 100] = Inl e)"
    using IMF_init_fails_iff [where exl = "[FloatItem (235 / 100)]" and mll = "[FloatItem 1, FloatItem 100]" and n = 1]
    by (simp add: np_array_def np_array_dtype_def)
  note j = IMF_init_fails_iff [where exl = "[FloatItem (235 / 100)]" and mll = "[FloatItem 10, FloatItem 1]" and n = 1]
  have "\<exists>e. IMF_init 1 [FloatItem (235 / 100)] [FloatItem 10, FloatItem 1] = Inl e"
    using j by (simp add: np_array_def np_array_dtype_def)
  then obtain e' where "IMF_init 1 [FloatItem (235 / 100)] [FloatItem 10, FloatItem 1] = Inl e'" ..
  with j have d: "IMF_init 1 [FloatItem (235 / 100)] [FloatItem 10, FloatItem 1] = Inl ValueError" by simp
  from a b c d r show ?thesis by (simp add: np_array_def)
qed

section \<open>The density \<open>xi\<close>\<close>




section \<open>The integral is not negative\<close>





section \<open>The partition property of \<open>integrate\<close>\<close>




section \<open>Sampling with exponent 1\<close>

text \<open>
  C5, at an input where the code leaves the claim. With one segment \<open>[10, 100]\<close> of
  exponent 1, and a generator whose draws are below 1, \<open>sample(1, seed)\<close> returns the single
  mass 1.0, which is below \<open>mass_limits[0] = 10\<close>: the branch \<open>alpha != -1\<close> of \<open>sample\<close>
  does not treat \<open>alpha = 1\<close>, as \<open>integrate\<close> and \<open>xi\<close> do. (That a seeded call
  does not depend on the state it starts in, and that a returned sequence has \<open>n\<close> masses,
  are \<open>sample_seeded_ignores_state\<close> and \<open>sample_length\<close>.)
\<close>

theorem sample_alpha_one_leaves_range:
  assumes "\<forall>g. fst (random_sample rng g) < 1"
  shows "\<exists>g'. sample rng \<lparr>intervals = 1, exponents = [1], mass_limits = [10, 100],
                          normalizations = [Some 4950],
                          exponents_dtype = float64, mass_limits_dtype = float64\<rparr> 1 (Some s) g
               = Inr ([Some 1], g')"
proof -
  let ?imf = "\<lparr>intervals = 1, exponents = [1], mass_limits = [10, 100],
                normalizations = [Some 4950],
                exponents_dtype = float64, mass_limits_dtype = float64\<rparr>"
  have ln10: "ln (10::real) \<noteq> 0" by simp
  have ints: "interval_integrals ?imf [0..<nat (intervals ?imf)] = Inr [Some (ln 10)]"
    by (simp add: integrate_def integrate_step_def integrate_term_def py_index_def
        py_max_def py_min_def py_truediv_def np_log_def)
  have probs: "normalize_probs [Some (ln 10)] = Some [1]"
    using ln10 by (simp add: normalize_probs_def)
  obtain u g1 where u: "random_sample rng (seed_state rng s) = (u, g1)"
    by (cases "random_sample rng (seed_state rng s)")
  with assms have "u < 1" by (metis fst_conv)
  then have choice: "np_random_choice rng (intervals ?imf) (Some [1]) (seed_state rng s) = Inr (0, g1)"
    using u by (simp add: np_random_choice_def)
  obtain u2 g2 where u2: "random_sample rng g1 = (u2, g2)" by (cases "random_sample rng g1")
  have "sample_loop rng ?imf (Some [1]) (Suc 0) (seed_state rng s) = Inr ([Some 1], g2)"
    using choice u2 by (simp add: py_index_def draw_mass_def)
  then show ?thesis
    using ints probs by (simp add: sample_def)
qed

theorem sample_alpha_one_leaves_range_witness:
  "(\<forall>g. fst (random_sample \<lparr>seed_state = nat, random_sample = (\<lambda>g::nat. (1 / 2, Suc g))\<rparr> g) < 1) \<and>
   (\<exists>g'. sample \<lparr>seed_state = nat, random_sample = (\<lambda>g::nat. (1 / 2, Suc g))\<rparr>
             \<lparr>intervals = 1, exponents = [1], mass_limits = [10, 100],
              normalizations = [Some 4950],
              exponents_dtype = float64, mass_limits_dtype = float64\<rparr> 1 (Some 42) 0
           = Inr ([Some 1], g')) \<and> (1::real) < 10"
proof -
  have h: "\<forall>g. fst (random_sample \<lparr>seed_state = nat, random_sample = (\<lambda>g::nat. (1 / 2, Suc g))\<rparr> g) < 1"
    by simp
  from sample_alpha_one_leaves_range [OF h, of 42 0] h show ?thesis by simp
qed

section \<open>Round trip through the track table\<close>

text \<open>
  C9. In a loaded table (a dictionary, so its masses are distinct) whose tracks follow the
  data model, a query at a tabulated mass and at the age of point \<open>k\<close> of that mass's track
  returns the values of that point, for the four continuous fields and the stellar type.
\<close>

theorem interpolate_track_round_trip:
  assumes "StellarTracks.tracks st metallicity = Some tbl"
    and "distinct (map fst tbl)" and "\<forall>(m', tr') \<in> set tbl. wf_track tr'"
    and "(m, tr) \<in> set tbl" and "k < length (time tr)"
  shows "interpolate_track fs st m (time tr ! k) metallicity =
           Inr (\<lparr>props_luminosity = luminosity tr ! k, props_temperature = temperature tr ! k,
                 props_radius = radius tr ! k, props_mass_loss_rate = mass_loss_rate tr ! k,
                 props_stellar_type = stellar_type tr ! k\<rparr>, st)"
  using assms(1) interpolate_in_table_node [OF assms(2-5)]
  by (simp add: interpolate_track_def dom_def)

theorem interpolate_track_round_trip_witness:
  "interpolate_track Map.empty
     \<lparr>data_dir = ''data/tracks'',
      StellarTracks.tracks = [''Z0020v00'' \<mapsto>
        [(1, \<lparr>time = [1, 2], luminosity = [3, 32 / 10], temperature = [5700, 5600],
               radius = [1, 11 / 10], mass_loss_rate = [1, 2], stellar_type = [1, 1]\<rparr>),
         (5, \<lparr>time = [1, 2, 5], luminosity = [38 / 10, 4, 42 / 10], temperature = [10000, 9500, 9000],
               radius = [5, 55 / 10, 6], mass_loss_rate = [10, 15, 20], stellar_type = [1, 1, 2]\<rparr>),
         (20, \<lparr>time = [1, 2], luminosity = [48 / 10, 5], temperature = [20000, 19000],
                radius = [20, 22], mass_loss_rate = [100, 200], stellar_type = [1, 1]\<rparr>)]],
      metallicities = [''Z0020v00'']\<rparr> 5 5 ''Z0020v00''
   = Inr (\<lparr>props_luminosity = 42 / 10, props_temperature = 9000, props_radius = 6,
           props_mass_loss_rate = 20, props_stellar_type = 2\<rparr>,
     \<lparr>data_dir = ''data/tracks'',
      StellarTracks.tracks = [''Z0020v00'' \<mapsto>
        [(1, \<lparr>time = [1, 2], luminosity = [3, 32 / 10], temperature = [5700, 5600],
               radius = [1, 11 / 10], mass_loss_rate = [1, 2], stellar_type = [1, 1]\<rparr>),
         (5, \<lparr>time = [1, 2, 5], luminosity = [38 / 10, 4, 42 / 10], temperature = [10000, 9500, 9000],
               radius = [5, 55 / 10, 6], mass_loss_rate = [10, 15, 20], stellar_type = [1, 1, 2]\<rparr>),
         (20, \<lparr>time = [1, 2], luminosity = [48 / 10, 5], temperature = [20000, 19000],
                radius = [20, 22], mass_loss_rate = [100, 200], stellar_type = [1, 1]\<rparr>)]],
      metallicities = [''Z0020v00'']\<rparr>)"
proof -
  let ?t5 = "\<lparr>time = [1, 2, 5], luminosity = [38 / 10, 4, 42 / 10], temperature = [10000, 9500, 9000],
               radius = [5, 55 / 10, 6], mass_loss_rate = [10, 15, 20], stellar_type = [1, 1, 2]\<rparr>"
  let ?tbl = "[(1::real, \<lparr>time = [1, 2], luminosity = [3, 32 / 10], temperature = [5700, 5600],
               radius = [1, 11 / 10], mass_loss_rate = [1, 2], stellar_type = [1, 1]\<rparr>),
         (5, ?t5),
         (20, \<lparr>time = [1, 2], luminosity = [48 / 10, 5], temperature = [20000, 19000],
                radius = [20, 22], mass_loss_rate = [100, 200], stellar_type = [1, 1]\<rparr>)]"
  let ?st = "\<lparr>data_dir = ''data/tracks'', StellarTracks.tracks = [''Z0020v00'' \<mapsto> ?tbl],
      metallicities = [''Z0020v00'']\<rparr>"
  have "interpolate_track Map.empty ?st 5 (time ?t5 ! 2) ''Z0020v00'' =
     Inr (\<lparr>props_luminosity = luminosity ?t5 ! 2, props_temperature = temperature ?t5 ! 2,
             props_radius = radius ?t5 ! 2, props_mass_loss_rate = mass_loss_rate ?t5 ! 2,
             props_stellar_type = stellar_type ?t5 ! 2\<rparr>, ?st)"
    by (rule interpolate_track_round_trip [where tbl = ?tbl]) (simp_all add: wf_track_def)
  then show ?thesis by simp
qed

section \<open>Lifetimes between two tracks\<close>

text \<open>
  C7. For a mass strictly between two adjacent tabulated masses \<open>m1 < m2\<close> (positive, with
  positive final ages), \<open>get_lifetime\<close> returns ten to the power of the value that the
  straight line through \<open>(log10 m1, log10 life1)\<close> and \<open>(log10 m2, log10 life2)\<close> takes at
  \<open>log10 mass\<close>. The witness is the example of the claim: masses 1 and 10, final ages
  \<open>1e8\<close> and \<open>1e7\<close>, mass \<open>sqrt 10\<close>; the result is \<open>10 ** 7.5\<close>, the geometric mean of
  the two ages, and not the value of the straight line in mass and age.
\<close>

theorem get_lifetime_log_interpolation:
  assumes "StellarTracks.tracks st metallicity = Some tbl"
    and "Suc i < length tbl"
    and "sort (map fst tbl) ! i = m1" "sort (map fst tbl) ! Suc i = m2"
    and "0 < m1" "m1 < m" "m < m2"
    and "map_of tbl m1 = Some track1" "map_of tbl m2 = Some track2"
    and "time track1 \<noteq> []" "time track2 \<noteq> []"
    and "0 < last (time track1)" "0 < last (time track2)"
  shows "get_lifetime fs st m metallicity =
           Inr (Some (10 powr ((log 10 (last (time track2)) - log 10 (last (time track1)))
                                 / (log 10 m2 - log 10 m1) * (log 10 m - log 10 m1)
                               + log 10 (last (time track1)))), st)"
  using assms(1) lifetime_in_table_between [OF assms(2-13)]
  by (simp add: get_lifetime_def dom_def)


theorem get_lifetime_log_interpolation_witness:
  "get_lifetime Map.empty
     \<lparr>data_dir = ''data/tracks'',
      StellarTracks.tracks = [''varied_lifetime'' \<mapsto>
        [(1, \<lparr>time = [10 ^ 6, 10 ^ 8], luminosity = [3, 3], temperature = [5700, 5700],
               radius = [1, 1], mass_loss_rate = [1 / 10 ^ 7, 1 / 10 ^ 7], stellar_type = [1, 1]\<rparr>),
         (10, \<lparr>time = [10 ^ 6, 10 ^ 7], luminosity = [4, 4], temperature = [10000, 10000],
                radius = [10, 10], mass_loss_rate = [1 / 10 ^ 6, 1 / 10 ^ 6], stellar_type = [1, 1]\<rparr>)]],
      metallicities = [''varied_lifetime'']\<rparr> (sqrt 10) ''varied_lifetime''
   = Inr (Some (10 powr (15 / 2)),
     \<lparr>data_dir = ''data/tracks'',
      StellarTracks.tracks = [''varied_lifetime'' \<mapsto>
        [(1, \<lparr>time = [10 ^ 6, 10 ^ 8], luminosity = [3, 3], temperature = [5700, 5700],
               radius = [1, 1], mass_loss_rate = [1 / 10 ^ 7, 1 / 10 ^ 7], stellar_type = [1, 1]\<rparr>),
         (10, \<lparr>time = [10 ^ 6, 10 ^ 7], luminosity = [4, 4], temperature = [10000, 10000],
                radius = [10, 10], mass_loss_rate = [1 / 10 ^ 6, 1 / 10 ^ 6], stellar_type = [1, 1]\<rparr>)]],
      metallicities = [''varied_lifetime'']\<rparr>) \<and>
   (10::real) powr (15 / 2) = sqrt (10 ^ 8 * 10 ^ 7) \<and>
   (10::real) powr (15 / 2) \<noteq> 10 ^ 8 + (10 ^ 7 - 10 ^ 8) * (sqrt 10 - 1) / (10 - 1)"
proof -
  let ?a = "\<lparr>time = [10 ^ 6, 10 ^ 8], luminosity = [3, 3], temperature = [5700, 5700],
               radius = [1, 1], mass_loss_rate = [1 / 10 ^ 7, 1 / 10 ^ 7], stellar_type = [1, 1]\<rparr>"
  let ?b = "\<lparr>time = [10 ^ 6, 10 ^ 7], luminosity = [4, 4], temperature = [10000, 10000],
                radius = [10, 10], mass_loss_rate = [1 / 10 ^ 6, 1 / 10 ^ 6], stellar_type = [1, 1]\<rparr>"
  let ?tbl = "[(1::real, ?a), (10, ?b)]"
  let ?st = "\<lparr>data_dir = ''data/tracks'', StellarTracks.tracks = [''varied_lifetime'' \<mapsto> ?tbl],
      metallicities = [''varied_lifetime'']\<rparr>"
  have s1: "1 < sqrt (10::real)" by (simp add: real_less_rsqrt)
  have s2: "sqrt (10::real) < 10" by (simp add: real_less_lsqrt)
  have s4: "sqrt (10::real) < 4" by (simp add: real_less_lsqrt)
  have l8: "log 10 (100000000::real) = 8" using log10_pow [of 8] by simp
  have l7: "log 10 (10000000::real) = 7" using log10_pow [of 7] by simp
  have ls: "log 10 (sqrt 10) = 1 / 2" by (simp add: log_def ln_sqrt)
  have "get_lifetime Map.empty ?st (sqrt 10) ''varied_lifetime'' =
      Inr (Some (10 powr ((log 10 (last (time ?b)) - log 10 (last (time ?a)))
                                 / (log 10 10 - log 10 1) * (log 10 (sqrt 10) - log 10 1)
                               + log 10 (last (time ?a)))), ?st)"
    using s1 s2
    by (intro get_lifetime_log_interpolation [where i = 0 and tbl = ?tbl]) simp_all
  then have v: "get_lifetime Map.empty ?st (sqrt 10) ''varied_lifetime'' = Inr (Some (10 powr (15 / 2)), ?st)"
    by (simp add: l8 l7 ls)
  have g: "(10::real) powr (15 / 2) = sqrt (10 ^ 8 * 10 ^ 7)" by (rule geometric_mean_value)
  have "sqrt ((10::real) ^ 8 * 10 ^ 7) = sqrt ((10 ^ 7)\<^sup>2 * 10)" by simp
  also have "\<dots> = sqrt ((10 ^ 7)\<^sup>2) * sqrt 10" by (rule real_sqrt_mult)
  also have "\<dots> = 10 ^ 7 * sqrt 10" unfolding real_sqrt_abs by simp
  finally have "sqrt ((10::real) ^ 8 * 10 ^ 7) = 10 ^ 7 * sqrt 10" .
  with g s4 have "(10::real) powr (15 / 2) < 4 * 10 ^ 7" by simp
  moreover have "4 * 10 ^ 7 < 10 ^ 8 + (10 ^ 7 - 10 ^ 8) * (sqrt 10 - 1) / (10 - 1)"
  proof -
    have e: "(10 ^ 8 + (10 ^ 7 - 10 ^ 8) * (sqrt 10 - 1) / (10 - 1) :: real)
               = 11 * 10 ^ 7 - 10 ^ 7 * sqrt 10"
      by (simp add: field_simps)
    have "4 * 10 ^ 7 < 11 * 10 ^ 7 - 10 ^ 7 * sqrt 10" using s4 by simp
    then show ?thesis unfolding e .
  qed
  ultimately have n: "(10::real) powr (15 / 2) \<noteq> 10 ^ 8 + (10 ^ 7 - 10 ^ 8) * (sqrt 10 - 1) / (10 - 1)"
    by linarith
  from v g n show ?thesis by blast
qed

section \<open>Ages outside the tabulated range\<close>

text \<open>
  C1, as the code has it. \<open>StellarTracks.interpolate_track\<close> evaluates every continuous
  field of a track with \<open>np.interp\<close>, which does not extrapolate: the value of a track at
  an age below its first point is the value of the first point, and at an age above its
  last point the value of the last point (\<open>held_value\<close>). For every mass of the query:
  at a tabulated mass, and at a mass at or below the lowest or at or above the highest
  tabulated mass, the result is that of the one track (the boundary track), so an age
  before its first point gives the first point and an age after its last point gives the
  last point; at a mass \<open>m1 < mass \<le> m2\<close> between two neighbouring tabulated masses each
  continuous field is \<open>w1 * v1 + w2 * v2\<close> with the weights \<open>(m2 - mass) / (m2 - m1)\<close> and
  \<open>(mass - m1) / (m2 - m1)\<close> and \<open>v1\<close>, \<open>v2\<close> the held values of the two tracks at the age,
  whatever the position of the age in either track.
  \<open>TrackData.interpolate_in_time\<close> extrapolates on both sides: an age above the last point
  is evaluated on the straight line through the last two points, and an age at or below
  the first point on the straight line through the first two.
\<close>

theorem ages_outside_table:
  "(distinct (map fst tbl) \<and> (\<forall>(m', tr') \<in> set tbl. wf_track tr') \<and> (m, tr) \<in> set tbl \<longrightarrow>
      (t < hd (time tr) \<longrightarrow> interpolate_in_table tbl m t = Inr (point_props tr 0)) \<and>
      (last (time tr) < t \<longrightarrow>
         interpolate_in_table tbl m t = Inr (point_props tr (length (time tr) - 1))) \<and>
      ((\<forall>(m', tr') \<in> set tbl. m \<le> m') \<and> mq \<le> m \<or> (\<forall>(m', tr') \<in> set tbl. m' \<le> m) \<and> m \<le> mq \<longrightarrow>
         (t < hd (time tr) \<longrightarrow> interpolate_in_table tbl mq t = Inr (point_props tr 0)) \<and>
         (last (time tr) < t \<longrightarrow>
            interpolate_in_table tbl mq t = Inr (point_props tr (length (time tr) - 1))) \<and>
         (\<exists>p. interpolate_in_table tbl mq t = Inr p \<and>
              props_luminosity p = held_value tr luminosity t \<and>
              props_temperature p = held_value tr temperature t \<and>
              props_radius p = held_value tr radius t \<and>
              props_mass_loss_rate p = held_value tr mass_loss_rate t))) \<and>
   (distinct (map fst tbl) \<and> (\<forall>(m', tr') \<in> set tbl. wf_track tr') \<and>
    (m1, track1) \<in> set tbl \<and> (m2, track2) \<in> set tbl \<and> m1 < mq \<and> mq \<le> m2 \<and>
    (\<forall>(m', tr') \<in> set tbl. m' \<le> m1 \<or> m2 \<le> m') \<longrightarrow>
      (\<exists>p. interpolate_in_table tbl mq t = Inr p \<and>
           props_luminosity p = (m2 - mq) / (m2 - m1) * held_value track1 luminosity t
                                + (mq - m1) / (m2 - m1) * held_value track2 luminosity t \<and>
           props_temperature p = (m2 - mq) / (m2 - m1) * held_value track1 temperature t
                                 + (mq - m1) / (m2 - m1) * held_value track2 temperature t \<and>
           props_radius p = (m2 - mq) / (m2 - m1) * held_value track1 radius t
                            + (mq - m1) / (m2 - m1) * held_value track2 radius t \<and>
           props_mass_loss_rate p = (m2 - mq) / (m2 - m1) * held_value track1 mass_loss_rate t
                                    + (mq - m1) / (m2 - m1) * held_value track2 mass_loss_rate t)) \<and>
   (wf_track tr \<longrightarrow>
      (t < hd (time tr) \<longrightarrow> held_value tr key t = key tr ! 0) \<and>
      (last (time tr) < t \<longrightarrow> held_value tr key t = key tr ! (length (time tr) - 1))) \<and>
   (wf_TrackData td \<and> age td = Some age_arr \<and> i < length age_arr \<and>
    sorted_wrt (<) (age_arr ! i) \<and> 2 \<le> num_points td \<longrightarrow>
      (last (age_arr ! i) < t \<longrightarrow>
         interpolate_in_time td (int i) t = Inr (lines_through td i (nat (num_points td) - 2) t)) \<and>
      (t \<le> hd (age_arr ! i) \<longrightarrow>
         interpolate_in_time td (int i) t = Inr (lines_through td i 0 t)))"
proof (intro conjI impI)
  assume a: "distinct (map fst tbl) \<and> (\<forall>(m', tr') \<in> set tbl. wf_track tr') \<and> (m, tr) \<in> set tbl"
  then have wtr: "wf_track tr" by auto
  show "interpolate_in_table tbl m t = Inr (point_props tr 0)" if "t < hd (time tr)"
    using a interpolate_single_below [OF wtr that] interpolate_between_below [OF _ wtr that]
    by (intro interpolate_in_table_tabulated_mass [where tr = tr]) auto
  show "interpolate_in_table tbl m t = Inr (point_props tr (length (time tr) - 1))"
    if "last (time tr) < t"
    using a interpolate_single_above [OF wtr that] interpolate_between_above [OF _ wtr that]
    by (intro interpolate_in_table_tabulated_mass [where tr = tr]) auto
  assume o: "(\<forall>(m', tr') \<in> set tbl. m \<le> m') \<and> mq \<le> m \<or> (\<forall>(m', tr') \<in> set tbl. m' \<le> m) \<and> m \<le> mq"
  have s: "interpolate_in_table tbl mq t = interpolate_single t tr"
    using o a interpolate_in_table_lowest [of tbl m tr mq t]
      interpolate_in_table_highest [of tbl m tr mq t] by blast
  show "interpolate_in_table tbl mq t = Inr (point_props tr 0)" if "t < hd (time tr)"
    using s interpolate_single_below [OF wtr that] by simp
  show "interpolate_in_table tbl mq t = Inr (point_props tr (length (time tr) - 1))"
    if "last (time tr) < t"
    using s interpolate_single_above [OF wtr that] by simp
  show "\<exists>p. interpolate_in_table tbl mq t = Inr p \<and>
              props_luminosity p = held_value tr luminosity t \<and>
              props_temperature p = held_value tr temperature t \<and>
              props_radius p = held_value tr radius t \<and>
              props_mass_loss_rate p = held_value tr mass_loss_rate t"
    using s interpolate_single_held [OF wtr, of t] by auto
next
  assume b: "distinct (map fst tbl) \<and> (\<forall>(m', tr') \<in> set tbl. wf_track tr') \<and>
    (m1, track1) \<in> set tbl \<and> (m2, track2) \<in> set tbl \<and> m1 < mq \<and> mq \<le> m2 \<and>
    (\<forall>(m', tr') \<in> set tbl. m' \<le> m1 \<or> m2 \<le> m')"
  then have w: "wf_track track1" "wf_track track2" by auto
  let ?w1 = "(m2 - mq) / (m2 - m1)" and ?w2 = "(mq - m1) / (m2 - m1)"
  from b have e: "interpolate_in_table tbl mq t =
           (if \<forall>(m', tr') \<in> set tbl. m' \<le> mq then interpolate_single t track2
            else interpolate_between ?w1 ?w2 t track1 track2)"
    by (intro interpolate_in_table_between) blast+
  show "\<exists>p. interpolate_in_table tbl mq t = Inr p \<and>
           props_luminosity p = ?w1 * held_value track1 luminosity t + ?w2 * held_value track2 luminosity t \<and>
           props_temperature p = ?w1 * held_value track1 temperature t + ?w2 * held_value track2 temperature t \<and>
           props_radius p = ?w1 * held_value track1 radius t + ?w2 * held_value track2 radius t \<and>
           props_mass_loss_rate p = ?w1 * held_value track1 mass_loss_rate t
                                    + ?w2 * held_value track2 mass_loss_rate t"
  proof (cases "\<forall>(m', tr') \<in> set tbl. m' \<le> mq")
    case True
    with b have "m2 \<le> mq" by blast
    with b have q: "mq = m2" "m1 < m2" by auto
    then have "?w1 = 0" "?w2 = 1" by simp_all
    then show ?thesis
      using e True interpolate_single_held [OF w(2), of t] by auto
  next
    case False
    then show ?thesis
      using e interpolate_between_held [OF w, of ?w1 ?w2 t] by auto
  qed
next
  assume "wf_track tr"
  then have "hd (time tr) \<le> last (time tr)"
    by (intro sorted_hd_le_last) (simp_all add: wf_track_def)
  then show "held_value tr key t = key tr ! 0" if "t < hd (time tr)"
    using that by (simp add: held_value_def)
  show "held_value tr key t = key tr ! (length (time tr) - 1)" if "last (time tr) < t"
    using that \<open>hd (time tr) \<le> last (time tr)\<close> by (simp add: held_value_def)
next
  assume "wf_TrackData td \<and> age td = Some age_arr \<and> i < length age_arr \<and>
    sorted_wrt (<) (age_arr ! i) \<and> 2 \<le> num_points td" and "last (age_arr ! i) < t"
  then show "interpolate_in_time td (int i) t = Inr (lines_through td i (nat (num_points td) - 2) t)"
    using interpolate_in_time_above by blast
next
  assume "wf_TrackData td \<and> age td = Some age_arr \<and> i < length age_arr \<and>
    sorted_wrt (<) (age_arr ! i) \<and> 2 \<le> num_points td" and "t \<le> hd (age_arr ! i)"
  then show "interpolate_in_time td (int i) t = Inr (lines_through td i 0 t)"
    using interpolate_in_time_below by blast
qed

theorem ages_outside_table_witness:
  "interpolate_in_table
     [(1, \<lparr>time = [1, 2], luminosity = [3, 32 / 10], temperature = [5700, 5600],
           radius = [1, 11 / 10], mass_loss_rate = [1, 2], stellar_type = [1, 1]\<rparr>),
      (5, \<lparr>time = [1, 2, 5], luminosity = [38 / 10, 4, 42 / 10], temperature = [10000, 9500, 9000],
           radius = [5, 55 / 10, 6], mass_loss_rate = [10, 15, 20], stellar_type = [1, 1, 2]\<rparr>)] 5 0
     = Inr \<lparr>props_luminosity = 38 / 10, props_temperature = 10000, props_radius = 5,
            props_mass_loss_rate = 10, props_stellar_type = 1\<rparr> \<and>
   interpolate_in_table
     [(1, \<lparr>time = [1, 2], luminosity = [3, 32 / 10], temperature = [5700, 5600],
           radius = [1, 11 / 10], mass_loss_rate = [1, 2], stellar_type = [1, 1]\<rparr>),
      (5, \<lparr>time = [1, 2, 5], luminosity = [38 / 10, 4, 42 / 10], temperature = [10000, 9500, 9000],
           radius = [5, 55 / 10, 6], mass_loss_rate = [10, 15, 20], stellar_type = [1, 1, 2]\<rparr>)] 50 7
     = Inr \<lparr>props_luminosity = 42 / 10, props_temperature = 9000, props_radius = 6,
            props_mass_loss_rate = 20, props_stellar_type = 2\<rparr> \<and>
   interpolate_in_table
     [(1, \<lparr>time = [1, 2], luminosity = [3, 32 / 10], temperature = [5700, 5600],
           radius = [1, 11 / 10], mass_loss_rate = [1, 2], stellar_type = [1, 1]\<rparr>),
      (5, \<lparr>time = [1, 2, 5], luminosity = [38 / 10, 4, 42 / 10], temperature = [10000, 9500, 9000],
           radius = [5, 55 / 10, 6], mass_loss_rate = [10, 15, 20], stellar_type = [1, 1, 2]\<rparr>)] (1 / 2) 0
     = Inr \<lparr>props_luminosity = 3, props_temperature = 5700, props_radius = 1,
            props_mass_loss_rate = 1, props_stellar_type = 1\<rparr> \<and>
   (\<exists>p. interpolate_in_table
     [(1, \<lparr>time = [1, 2], luminosity = [3, 32 / 10], temperature = [5700, 5600],
           radius = [1, 11 / 10], mass_loss_rate = [1, 2], stellar_type = [1, 1]\<rparr>),
      (5, \<lparr>time = [1, 2, 5], luminosity = [38 / 10, 4, 42 / 10], temperature = [10000, 9500, 9000],
           radius = [5, 55 / 10, 6], mass_loss_rate = [10, 15, 20], stellar_type = [1, 1, 2]\<rparr>)] 2 3
        = Inr p \<and>
      props_radius p = 3 / 4 * (11 / 10) + 1 / 4 * (17 / 3) \<and>
      props_mass_loss_rate p = 3 / 4 * 2 + 1 / 4 * (50 / 3)) \<and>
   interpolate_in_time
     (TrackData_new\<lparr>num_masses := 1, num_points := 5, age := Some [[0, 1, 2, 3, 4]],
                     mass := Some [[10, 95 / 10, 9, 85 / 10, 8]]\<rparr>) 0 5
     = Inr [(''mass'', 75 / 10)] \<and>
   interpolate_in_time
     (TrackData_new\<lparr>num_masses := 1, num_points := 5, age := Some [[0, 1, 2, 3, 4]],
                     mass := Some [[10, 95 / 10, 9, 85 / 10, 8]]\<rparr>) 0 (- 2)
     = Inr [(''mass'', 11)]"
proof -
  let ?t1 = "\<lparr>time = [1, 2], luminosity = [3, 32 / 10], temperature = [5700, 5600],
           radius = [1, 11 / 10], mass_loss_rate = [1, 2], stellar_type = [1, 1]\<rparr>"
  let ?t5 = "\<lparr>time = [1, 2, 5], luminosity = [38 / 10, 4, 42 / 10], temperature = [10000, 9500, 9000],
           radius = [5, 55 / 10, 6], mass_loss_rate = [10, 15, 20], stellar_type = [1, 1, 2]\<rparr>"
  let ?tbl = "[(1::real, ?t1), (5, ?t5)]"
  let ?td = "TrackData_new\<lparr>num_masses := 1, num_points := 5, age := Some [[0, 1, 2, 3, 4]],
                     mass := Some [[10, 95 / 10, 9, 85 / 10, 8]]\<rparr>"
  have wf: "wf_track ?t1" "wf_track ?t5" by (simp_all add: wf_track_def)
  have wtd: "wf_TrackData ?td"
    by (auto simp: wf_TrackData_def TrackData_new_def interpolated_attrs_def)
  have td: "age ?td = Some [[0, 1, 2, 3, 4]]" "num_points ?td = 5" "mass ?td = Some [[10, 95 / 10, 9, 85 / 10, 8]]"
    by (simp_all add: TrackData_new_def)
  have lines: "lines_through ?td 0 k t = [(''mass'', line_through [0, 1, 2, 3, 4] [10, 95 / 10, 9, 85 / 10, 8] k t)]"
    for k t
    by (simp add: lines_through_def interpolated_attrs_def TrackData_new_def)
  have a: "interpolate_in_table ?tbl 5 0 = Inr (point_props ?t5 0)"
    using ages_outside_table [where tbl = ?tbl and m = 5 and tr = ?t5 and t = 0] wf by simp
  have b: "interpolate_in_table ?tbl 50 7 = Inr (point_props ?t5 (length (time ?t5) - 1))"
    using ages_outside_table [where tbl = ?tbl and m = 5 and tr = ?t5 and t = 7 and mq = 50] wf by simp
  have c: "interpolate_in_table ?tbl (1 / 2) 0 = Inr (point_props ?t1 0)"
    using ages_outside_table [where tbl = ?tbl and m = 1 and tr = ?t1 and t = 0 and mq = "1 / 2"] wf
    by simp
  have h1: "held_value ?t1 radius 3 = 11 / 10" "held_value ?t1 mass_loss_rate 3 = 2"
    using ages_outside_table [where tr = ?t1 and t = 3 and key = radius,
        THEN conjunct2, THEN conjunct2, THEN conjunct1]
      ages_outside_table [where tr = ?t1 and t = 3 and key = mass_loss_rate,
        THEN conjunct2, THEN conjunct2, THEN conjunct1] wf by simp_all
  have h5: "held_value ?t5 radius 3 = 17 / 3" "held_value ?t5 mass_loss_rate 3 = 50 / 3"
    by (simp_all add: held_value_def)
  have hyp: "distinct (map fst ?tbl) \<and> (\<forall>(m', tr') \<in> set ?tbl. wf_track tr') \<and>
      (1, ?t1) \<in> set ?tbl \<and> (5, ?t5) \<in> set ?tbl \<and> (1::real) < 2 \<and> (2::real) \<le> 5 \<and>
      (\<forall>(m', tr') \<in> set ?tbl. m' \<le> 1 \<or> 5 \<le> m')"
    using wf by simp
  note bt = ages_outside_table [where tbl = ?tbl and ?m1.0 = 1 and ?track1.0 = ?t1 and ?m2.0 = 5
        and ?track2.0 = ?t5 and mq = 2 and t = 3, THEN conjunct2, THEN conjunct1, THEN mp, OF hyp]
  then obtain p where p: "interpolate_in_table ?tbl 2 3 = Inr p"
    "props_radius p = (5 - 2) / (5 - 1) * held_value ?t1 radius 3
                           + (2 - 1) / (5 - 1) * held_value ?t5 radius 3"
    "props_mass_loss_rate p = (5 - 2) / (5 - 1) * held_value ?t1 mass_loss_rate 3
                           + (2 - 1) / (5 - 1) * held_value ?t5 mass_loss_rate 3"
    by blast
  have "\<exists>p. interpolate_in_table ?tbl 2 3 = Inr p \<and>
          props_radius p = (5 - 2) / (5 - 1) * held_value ?t1 radius 3
                           + (2 - 1) / (5 - 1) * held_value ?t5 radius 3 \<and>
          props_mass_loss_rate p = (5 - 2) / (5 - 1) * held_value ?t1 mass_loss_rate 3
                           + (2 - 1) / (5 - 1) * held_value ?t5 mass_loss_rate 3"
    using p by blast
  then have d: "\<exists>p. interpolate_in_table ?tbl 2 3 = Inr p \<and>
      props_radius p = 3 / 4 * (11 / 10) + 1 / 4 * (17 / 3) \<and>
      props_mass_loss_rate p = 3 / 4 * 2 + 1 / 4 * (50 / 3)"
    unfolding h1 h5 by simp
  have e: "interpolate_in_time ?td (int 0) 5 = Inr (lines_through ?td 0 (nat (num_points ?td) - 2) 5)"
    using ages_outside_table [where td = ?td and age_arr = "[[0, 1, 2, 3, 4]]" and i = 0 and t = 5]
      wtd td by simp
  have f: "interpolate_in_time ?td (int 0) (- 2) = Inr (lines_through ?td 0 0 (- 2))"
    using ages_outside_table [where td = ?td and age_arr = "[[0, 1, 2, 3, 4]]" and i = 0 and t = "- 2"]
      wtd td by simp
  have k: "nat (num_points ?td) - 2 = 3" by (simp add: td)
  from a b c d show ?thesis
    using e f unfolding k lines by (simp add: point_props_def line_through_def)
qed

text \<open>The claim as stated fails in both functions. A track with ages \<open>[0, 1]\<close> and values
  \<open>[0, 1]\<close> queried by \<open>interpolate_track\<close> at age 2 gives 1, the last value, where the
  line through the last two points gives 2; the same data queried by
  \<open>interpolate_in_time\<close> at age \<open>-1\<close> gives \<open>-1\<close>, not the first value 0.\<close>

theorem ages_outside_table_counterexample:
  "interpolate_in_table
     [(1, \<lparr>time = [0, 1], luminosity = [0, 1], temperature = [0, 1], radius = [0, 1],
           mass_loss_rate = [0, 1], stellar_type = [1, 2]\<rparr>)] 1 2
     = Inr \<lparr>props_luminosity = 1, props_temperature = 1, props_radius = 1,
            props_mass_loss_rate = 1, props_stellar_type = 2\<rparr> \<and>
   line_through [0, 1] [0, 1] 0 2 = 2 \<and>
   interpolate_in_time
     (TrackData_new\<lparr>num_masses := 1, num_points := 2, age := Some [[0, 1]], mass := Some [[0, 1]]\<rparr>)
     0 (- 1) = Inr [(''mass'', - 1)]"
  by (simp add: interpolate_in_table_def dict_get_def py_index_def interpolate_single_def
      np_interp_def type_at_def np_searchsorted_def np_clip_def line_through_def
      interpolate_in_time_def TrackData_new_def interpolated_attrs_def index2_def)

section \<open>A track file that is missing or cannot be read\<close>

text \<open>
  C3, as the code has it. When the selected track file is missing \<open>_read_tracks\<close> logs a
  warning and turns to \<open>data/tracks/Z0140v00.txt\<close>; when that file is missing too it raises
  FileNotFoundError, which ends the run. When the file it turns to exists it does not
  raise: whether \<open>load_tracks\<close> succeeds or raises (then an error is logged), the track list
  of the galaxy becomes one track data object of one mass and 100 points, all zero, and
  every attribute interpolated from it at any age is zero.
\<close>

theorem read_tracks_outcomes:
  "(fs (track_path (track_filename (iz (galaxy s)))) = None \<longrightarrow>
      (WARNING, ''Track file not found, using default'') \<in> set (logged (fst (read_tracks fs s)))) \<and>
   (fs (track_path (track_filename (iz (galaxy s)))) = None \<and>
    fs (track_path ''Z0140v00.txt'') = None \<longrightarrow>
      snd (read_tracks fs s) = Some FileNotFoundError) \<and>
   (fs (track_path (track_filename (iz (galaxy s)))) \<noteq> None \<or>
    fs (track_path ''Z0140v00.txt'') \<noteq> None \<longrightarrow>
      snd (read_tracks fs s) = None \<and>
      (\<exists>td. TrackData_init TrackData_new 1 100 = Inr td \<and>
            GalaxyModel.tracks (galaxy (fst (read_tracks fs s))) = [td] \<and>
            (\<forall>t. interpolate_in_time td 0 t = Inr (map (\<lambda>(attr, get). (attr, 0)) interpolated_attrs)))) \<and>
   (fs (track_path (track_filename (iz (galaxy s)))) \<noteq> None \<and>
    (\<exists>e. load_tracks fs (stellar_tracks s) (stem (track_filename (iz (galaxy s)))) = Inl e) \<longrightarrow>
      (ERROR, ''Error reading tracks'') \<in> set (logged (fst (read_tracks fs s)))) \<and>
   (fs (track_path (track_filename (iz (galaxy s)))) = None \<and>
    fs (track_path ''Z0140v00.txt'') \<noteq> None \<and>
    (\<exists>e. load_tracks fs (stellar_tracks s) (stem ''Z0140v00.txt'') = Inl e) \<longrightarrow>
      (ERROR, ''Error reading tracks'') \<in> set (logged (fst (read_tracks fs s))))"
proof (intro conjI impI)
  assume a: "fs (track_path (track_filename (iz (galaxy s)))) = None"
  show "(WARNING, ''Track file not found, using default'') \<in> set (logged (fst (read_tracks fs s)))"
  proof (cases "fs (track_path ''Z0140v00.txt'') = None")
    case True
    with a show ?thesis by (simp add: read_tracks_both_missing)
  next
    case False
    with a load_or_fallback_logged show ?thesis
      by (fastforce simp: read_tracks_default)
  qed
next
  assume "fs (track_path (track_filename (iz (galaxy s)))) = None \<and>
    fs (track_path ''Z0140v00.txt'') = None"
  then show "snd (read_tracks fs s) = Some FileNotFoundError"
    by (simp add: read_tracks_both_missing)
next
  assume b: "fs (track_path (track_filename (iz (galaxy s)))) \<noteq> None \<or>
    fs (track_path ''Z0140v00.txt'') \<noteq> None"
  then obtain s1 name where r: "read_tracks fs s = load_or_fallback fs s1 name"
    using read_tracks_selected [of fs s] read_tracks_default [of fs s] by metis
  from load_or_fallback_continues [of fs s1 name]
  show "snd (read_tracks fs s) = None" unfolding r by simp
  from load_or_fallback_continues [of fs s1 name] dummy_interpolates_to_zero
  show "\<exists>td. TrackData_init TrackData_new 1 100 = Inr td \<and>
            GalaxyModel.tracks (galaxy (fst (read_tracks fs s))) = [td] \<and>
            (\<forall>t. interpolate_in_time td 0 t = Inr (map (\<lambda>(attr, get). (attr, 0)) interpolated_attrs))"
    unfolding r by blast
next
  assume "fs (track_path (track_filename (iz (galaxy s)))) \<noteq> None \<and>
    (\<exists>e. load_tracks fs (stellar_tracks s) (stem (track_filename (iz (galaxy s)))) = Inl e)"
  then show "(ERROR, ''Error reading tracks'') \<in> set (logged (fst (read_tracks fs s)))"
    using load_or_fallback_logs_error by (auto simp: read_tracks_selected)
next
  assume c: "fs (track_path (track_filename (iz (galaxy s)))) = None \<and>
    fs (track_path ''Z0140v00.txt'') \<noteq> None \<and>
    (\<exists>e. load_tracks fs (stellar_tracks s) (stem ''Z0140v00.txt'') = Inl e)"
  let ?s1 = "s\<lparr>logged := logged s @ [(WARNING, ''Track file not found, using default'')]\<rparr>"
  from c obtain e where "load_tracks fs (stellar_tracks ?s1) (stem ''Z0140v00.txt'') = Inl e"
    by auto
  from load_or_fallback_logs_error [OF this] c
  show "(ERROR, ''Error reading tracks'') \<in> set (logged (fst (read_tracks fs s)))"
    by (simp add: read_tracks_default)
qed


theorem read_tracks_outcomes_witness:
  "track_filename (iz (galaxy (Starburst99_init\<lparr>galaxy := GalaxyModel_init\<lparr>iz := 41\<rparr>\<rparr>))) = ''modp0004.dat'' \<and>
   [track_path ''modp0004.dat'' \<mapsto> Inr []] (track_path ''modp0004.dat'') \<noteq> None \<and>
   load_tracks [track_path ''modp0004.dat'' \<mapsto> Inr []] StellarTracks_init (stem ''modp0004.dat'')
     = Inl FileNotFoundError \<and>
   snd (read_tracks [track_path ''modp0004.dat'' \<mapsto> Inr []]
          (Starburst99_init\<lparr>galaxy := GalaxyModel_init\<lparr>iz := 41\<rparr>\<rparr>)) = None \<and>
   (ERROR, ''Error reading tracks'') \<in> set (logged (fst (read_tracks [track_path ''modp0004.dat'' \<mapsto> Inr []]
          (Starburst99_init\<lparr>galaxy := GalaxyModel_init\<lparr>iz := 41\<rparr>\<rparr>)))) \<and>
   snd (read_tracks Map.empty (Starburst99_init\<lparr>galaxy := GalaxyModel_init\<lparr>iz := 41\<rparr>\<rparr>))
     = Some FileNotFoundError \<and>
   (WARNING, ''Track file not found, using default'')
     \<in> set (logged (fst (read_tracks Map.empty (Starburst99_init\<lparr>galaxy := GalaxyModel_init\<lparr>iz := 41\<rparr>\<rparr>)))) \<and>
   snd (read_tracks [track_path ''Z0140v00.txt'' \<mapsto> Inl OSError]
          (Starburst99_init\<lparr>galaxy := GalaxyModel_init\<lparr>iz := 41\<rparr>\<rparr>)) = None \<and>
   (ERROR, ''Error reading tracks'') \<in> set (logged (fst (read_tracks [track_path ''Z0140v00.txt'' \<mapsto> Inl OSError]
          (Starburst99_init\<lparr>galaxy := GalaxyModel_init\<lparr>iz := 41\<rparr>\<rparr>))))"
proof -
  let ?s = "Starburst99_init\<lparr>galaxy := GalaxyModel_init\<lparr>iz := 41\<rparr>\<rparr>"
  let ?fs = "[track_path ''modp0004.dat'' \<mapsto> Inr []] :: file_system"
  have n: "track_filename (iz (galaxy ?s)) = ''modp0004.dat''"
    by (simp add: track_filename_def track_files_def)
  have st: "stellar_tracks ?s = StellarTracks_init" by (simp add: Starburst99_init_def)
  have l: "load_tracks ?fs StellarTracks_init (stem ''modp0004.dat'') = Inl FileNotFoundError"
    by (simp add: load_tracks_def stem_def StellarTracks_init_def track_path_def)
  have e: "?fs (track_path ''modp0004.dat'') \<noteq> None" by simp
  let ?fd = "[track_path ''Z0140v00.txt'' \<mapsto> Inl OSError] :: file_system"
  have d: "?fd (track_path ''modp0004.dat'') = None" "?fd (track_path ''Z0140v00.txt'') \<noteq> None"
    by (simp_all add: track_path_def)
  have ld: "load_tracks ?fd StellarTracks_init (stem ''Z0140v00.txt'') = Inl OSError"
    by (simp add: load_tracks_def stem_def StellarTracks_init_def track_path_def)
  have g: "snd (read_tracks ?fd ?s) = None"
    "(ERROR, ''Error reading tracks'') \<in> set (logged (fst (read_tracks ?fd ?s)))"
    using read_tracks_outcomes [of ?fd ?s] n st d ld by simp_all
  from read_tracks_outcomes [of ?fs ?s] read_tracks_outcomes [of Map.empty ?s] n st l e g
  show ?thesis by simp
qed

text \<open>The claim as stated fails when no track file exists: the warning is logged, and
  the second test of existence raises FileNotFoundError.\<close>

theorem read_tracks_aborts_when_missing:
  "read_tracks Map.empty Starburst99_init =
     (Starburst99_init\<lparr>logged := [(WARNING, ''Track file not found, using default'')]\<rparr>,
      Some FileNotFoundError)"
  by (simp add: read_tracks_def Let_def Starburst99_init_def)

section \<open>The logarithmic clock\<close>

text \<open>
  C2, at an input where the code leaves the claim. With the parameters of the claim
  (logarithmic scale, initial time 1, last time 1000, 3 steps) the three steps are computed
  at the times 0, 1 and 0, and the clock ends at 0: the first step runs at the initial
  \<open>self.time = 0.0\<close>, the first update sets the time to \<open>time1\<close>, and every later update
  multiplies it by \<open>galaxy.tstep\<close>, which is 0.0 from \<open>GalaxyModel.__init__\<close> on
  (\<open>tstep_never_set\<close>): no statement computes the ratio from the parameters.
\<close>

theorem logarithmic_clock_collapses:
  "\<exists>s'. main_calculation_loop
          (sync_parameters
             (ModelParameters_default\<lparr>time_scale := 1, initial_time := 1, max_time := 1000,
                                       num_steps := 3\<rparr>)
             Starburst99_init) []
        = Some (s', [(0, 1), (1, 2), (0, 3)]) \<and> sb_time s' = 0 \<and> sb_icount s' = 4"
  apply (subst main_calculation_loop.simps)
  apply (simp add: sync_parameters_def Starburst99_init_def GalaxyModel_init_def
      ModelParameters_default_def update_time_def continue_evolution_def Let_def)
  apply (subst main_calculation_loop.simps)
  apply (simp add: update_time_def continue_evolution_def Let_def)
  apply (subst main_calculation_loop.simps)
  apply (simp add: update_time_def continue_evolution_def Let_def)
  done

end
